theory Spec2Isabelle
  imports Complex_Main "HOL-Library.Sublist"
begin

section \<open>JavaScript numbers and values\<close>

text \<open>
  A JavaScript \<^verbatim>\<open>number\<close> is a finite value, one of the two infinities, or NaN.
  Finite values are taken as exact reals (rounding and overflow are left out); the special
  values follow IEEE 754. The two zeros are one value \<open>Fin 0\<close>: the program never
  divides by a zero other than \<^verbatim>\<open>options.duration\<close>, which the base constructor
  builds with \<^verbatim>\<open>|| 0\<close>, so a divisor zero is always \<^verbatim>\<open>+0\<close>, and comparisons do not
  see the sign of a zero.
\<close>

datatype jsnum = Fin real | PInf | NInf | NaN

fun jneg :: "jsnum \<Rightarrow> jsnum" where
  "jneg (Fin a) = Fin (- a)"
| "jneg PInf = NInf"
| "jneg NInf = PInf"
| "jneg NaN = NaN"

fun jadd :: "jsnum \<Rightarrow> jsnum \<Rightarrow> jsnum" where
  "jadd NaN _ = NaN"
| "jadd _ NaN = NaN"
| "jadd (Fin a) (Fin b) = Fin (a + b)"
| "jadd (Fin _) PInf = PInf"
| "jadd (Fin _) NInf = NInf"
| "jadd PInf (Fin _) = PInf"
| "jadd PInf PInf = PInf"
| "jadd PInf NInf = NaN"
| "jadd NInf (Fin _) = NInf"
| "jadd NInf NInf = NInf"
| "jadd NInf PInf = NaN"

definition jsub :: "jsnum \<Rightarrow> jsnum \<Rightarrow> jsnum" where
  "jsub a b = jadd a (jneg b)"

text \<open>The sign of a product or quotient with an infinite operand.\<close>

definition signed_inf :: "bool \<Rightarrow> jsnum" where
  "signed_inf positive = (if positive then PInf else NInf)"

fun jmul :: "jsnum \<Rightarrow> jsnum \<Rightarrow> jsnum" where
  "jmul NaN _ = NaN"
| "jmul _ NaN = NaN"
| "jmul (Fin a) (Fin b) = Fin (a * b)"
| "jmul (Fin a) PInf = (if a = 0 then NaN else signed_inf (0 < a))"
| "jmul (Fin a) NInf = (if a = 0 then NaN else signed_inf (a < 0))"
| "jmul PInf (Fin b) = (if b = 0 then NaN else signed_inf (0 < b))"
| "jmul NInf (Fin b) = (if b = 0 then NaN else signed_inf (b < 0))"
| "jmul PInf PInf = PInf"
| "jmul PInf NInf = NInf"
| "jmul NInf PInf = NInf"
| "jmul NInf NInf = PInf"

fun jdiv :: "jsnum \<Rightarrow> jsnum \<Rightarrow> jsnum" where
  "jdiv NaN _ = NaN"
| "jdiv _ NaN = NaN"
| "jdiv (Fin a) (Fin b) =
     (if b = 0 then (if a = 0 then NaN else signed_inf (0 < a)) else Fin (a / b))"
| "jdiv (Fin _) PInf = Fin 0"
| "jdiv (Fin _) NInf = Fin 0"
| "jdiv PInf (Fin b) = signed_inf (0 \<le> b)"
| "jdiv NInf (Fin b) = signed_inf (b < 0)"
| "jdiv PInf PInf = NaN"
| "jdiv PInf NInf = NaN"
| "jdiv NInf PInf = NaN"
| "jdiv NInf NInf = NaN"

fun jabs :: "jsnum \<Rightarrow> jsnum" where
  "jabs (Fin a) = Fin \<bar>a\<bar>"
| "jabs PInf = PInf"
| "jabs NInf = PInf"
| "jabs NaN = NaN"

text \<open>Comparisons: every comparison with NaN is false.\<close>

fun jlt :: "jsnum \<Rightarrow> jsnum \<Rightarrow> bool" where
  "jlt NaN _ = False"
| "jlt _ NaN = False"
| "jlt (Fin a) (Fin b) = (a < b)"
| "jlt (Fin _) PInf = True"
| "jlt (Fin _) NInf = False"
| "jlt PInf _ = False"
| "jlt NInf (Fin _) = True"
| "jlt NInf PInf = True"
| "jlt NInf NInf = False"

definition jgt :: "jsnum \<Rightarrow> jsnum \<Rightarrow> bool" where
  "jgt a b = jlt b a"

definition jle :: "jsnum \<Rightarrow> jsnum \<Rightarrow> bool" where
  "jle a b = (a \<noteq> NaN \<and> b \<noteq> NaN \<and> (a = b \<or> jlt a b))"

definition jge :: "jsnum \<Rightarrow> jsnum \<Rightarrow> bool" where
  "jge a b = jle b a"

text \<open>\<^verbatim>\<open>==\<close> on two numbers: NaN equals nothing.\<close>

definition jeq :: "jsnum \<Rightarrow> jsnum \<Rightarrow> bool" where
  "jeq a b = (a \<noteq> NaN \<and> a = b)"

text \<open>
  What a callback of the host program may hand back at run time, whatever its declared
  type says. Only the distinction between \<^verbatim>\<open>true\<close> and everything else matters to the
  camera.
\<close>

datatype jsval =
    JUndefined
  | JNull
  | JBool bool
  | JNumber jsnum
  | JString string
  | JObject nat

fun truthy_num :: "jsnum \<Rightarrow> bool" where
  "truthy_num (Fin a) = (a \<noteq> 0)"
| "truthy_num NaN = False"
| "truthy_num _ = True"

fun truthy :: "jsval \<Rightarrow> bool" where
  "truthy JUndefined = False"
| "truthy JNull = False"
| "truthy (JBool b) = b"
| "truthy (JNumber n) = truthy_num n"
| "truthy (JString s) = (s \<noteq> [])"
| "truthy (JObject _) = True"

section \<open>The scene graph, as far as the effects read and write it\<close>

record Vector2 =
  vec_x :: jsnum
  vec_y :: jsnum

text \<open>
  A PIXI container: the transform properties the effects touch, its size, and the
  sprites added to it (by reference).
\<close>

record container =
  pivot :: Vector2
  scale :: Vector2
  angle :: jsnum
  width :: jsnum
  height :: jsnum
  children :: "nat list"

text \<open>A PIXI sprite, used by the fade effect as a coloured overlay.\<close>

record sprite =
  sprite_width :: jsnum
  sprite_height :: jsnum
  alpha :: jsnum
  tint :: jsnum

section \<open>Effects\<close>

text \<open>\<^verbatim>\<open>CameraEffectOptions\<close> as the base class stores it.\<close>

record CameraEffectOptions =
  duration :: jsnum
  endCondition :: "(jsnum \<Rightarrow> jsval) option"

text \<open>
  The options object a caller passes to a constructor: at run time either property may
  be missing, and the whole object is optional.
\<close>

record options_arg =
  arg_duration :: "jsnum option"
  arg_endCondition :: "(jsnum \<Rightarrow> jsval) option"

record ShakeEffect_fields =
  intensity :: jsnum
  initialPivotVector :: Vector2

record PanEffect_fields =
  coordinates :: Vector2
  difference :: Vector2
  pan_xIsGreater :: bool
  pan_yIsGreater :: bool

record ZoomEffect_fields =
  zoomLevel :: Vector2
  zoom_easingFn :: "jsnum \<Rightarrow> jsnum"
  initialZoomLevel :: Vector2
  zoom_xIsGreater :: bool
  zoom_yIsGreater :: bool

record RotateEffect_fields =
  target_angle :: jsnum
  initialAngle :: jsnum
  initialPivot :: Vector2
  rotate_easingFn :: "jsnum \<Rightarrow> jsnum"

record FadeEffect_fields =
  fade_filter :: nat
  color :: jsnum
  opacity :: jsnum
  fade_easingFn :: "jsnum \<Rightarrow> jsnum"
  isFadeOut :: bool
  initialOpacity :: jsnum

text \<open>
  A subclass written by the host program: its \<^verbatim>\<open>update\<close> gets the delta and the two
  timestamps, acts on the effect's own container and returns \<^verbatim>\<open>true\<close>, \<^verbatim>\<open>false\<close> or
  nothing; its \<^verbatim>\<open>onEnd\<close> is optional.
\<close>

record CustomEffect_fields =
  custom_update :: "jsnum \<Rightarrow> real \<Rightarrow> real \<Rightarrow> container \<Rightarrow> container \<times> bool option"
  custom_onEnd :: "(container \<Rightarrow> container) option"

datatype effect_kind =
    Shake ShakeEffect_fields
  | Pan PanEffect_fields
  | Zoom ZoomEffect_fields
  | Rotate RotateEffect_fields
  | Fade FadeEffect_fields
  | Custom CustomEffect_fields

text \<open>
  An effect object: the fields of the abstract class \<^verbatim>\<open>CameraEffect\<close> and those of its
  subclass. The timestamps only ever hold 0 or a reading of \<^verbatim>\<open>performance.now()\<close>, so
  they are finite.
\<close>

record effect =
  container_ref :: nat
  options :: CameraEffectOptions
  startedTimeStamp :: real
  lastRanTimeStamp :: real
  kind :: effect_kind

section \<open>The world: object store, clock, random source, call log\<close>

datatype event =
    UpdateCalled nat jsnum
  | OnEndCalled nat
  | EndConditionCalled nat jsnum

text \<open>
  Containers, sprites and effects are objects held by reference, so they live in stores
  indexed by address. \<open>clock\<close> lists what successive calls of \<^verbatim>\<open>performance.now()\<close>
  return and \<open>random\<close> what successive calls of \<^verbatim>\<open>Math.random()\<close> return. \<open>calls\<close>
  logs, oldest first, each call the camera makes into an effect or an end condition.
\<close>

record world =
  containers :: "nat \<Rightarrow> container"
  sprites :: "nat \<Rightarrow> sprite"
  effects :: "nat \<Rightarrow> effect"
  next_effect :: nat
  clock :: "nat \<Rightarrow> real"
  clock_reads :: nat
  random :: "nat \<Rightarrow> real"
  random_reads :: nat
  calls :: "event list"

definition performance_now :: "world \<Rightarrow> real \<times> world" where
  "performance_now w = (clock w (clock_reads w), w\<lparr>clock_reads := Suc (clock_reads w)\<rparr>)"

definition Math_random :: "world \<Rightarrow> jsnum \<times> world" where
  "Math_random w = (Fin (random w (random_reads w)), w\<lparr>random_reads := Suc (random_reads w)\<rparr>)"

definition log_call :: "event \<Rightarrow> world \<Rightarrow> world" where
  "log_call ev w = w\<lparr>calls := calls w @ [ev]\<rparr>"

definition set_container :: "nat \<Rightarrow> container \<Rightarrow> world \<Rightarrow> world" where
  "set_container c v w = w\<lparr>containers := (containers w)(c := v)\<rparr>"

definition set_sprite :: "nat \<Rightarrow> sprite \<Rightarrow> world \<Rightarrow> world" where
  "set_sprite s v w = w\<lparr>sprites := (sprites w)(s := v)\<rparr>"

definition set_effect :: "nat \<Rightarrow> effect \<Rightarrow> world \<Rightarrow> world" where
  "set_effect e v w = w\<lparr>effects := (effects w)(e := v)\<rparr>"

text \<open>\<^verbatim>\<open>new\<close>: the object gets the next free address.\<close>

definition alloc_effect :: "effect \<Rightarrow> world \<Rightarrow> nat \<times> world" where
  "alloc_effect v w =
     (next_effect w, w\<lparr>effects := (effects w)(next_effect w := v), next_effect := Suc (next_effect w)\<rparr>)"

subsection \<open>CameraEffect: the base constructor\<close>

text \<open>
  \<^verbatim>\<open>duration: (options && options.duration) || 0\<close> and
  \<^verbatim>\<open>endCondition: (options && options.endCondition) || undefined\<close>; a function is always
  truthy.
\<close>

definition CameraEffect_options :: "options_arg option \<Rightarrow> CameraEffectOptions" where
  "CameraEffect_options opts =
     \<lparr> duration =
         (case opts of
            None \<Rightarrow> Fin 0
          | Some a \<Rightarrow>
              (case arg_duration a of
                 None \<Rightarrow> Fin 0
               | Some d \<Rightarrow> if truthy_num d then d else Fin 0)),
       endCondition =
         (case opts of None \<Rightarrow> None | Some a \<Rightarrow> arg_endCondition a) \<rparr>"

definition CameraEffect_new :: "nat \<Rightarrow> options_arg option \<Rightarrow> effect_kind \<Rightarrow> effect" where
  "CameraEffect_new c opts k =
     \<lparr> container_ref = c, options = CameraEffect_options opts,
       startedTimeStamp = 0, lastRanTimeStamp = 0, kind = k \<rparr>"

text \<open>The caller gave no options object, or one without a duration.\<close>

definition no_duration :: "options_arg option \<Rightarrow> bool" where
  "no_duration opts = (case opts of None \<Rightarrow> True | Some a \<Rightarrow> arg_duration a = None)"

text \<open>\<^verbatim>\<open>(lastRanTimeStamp - startedTimeStamp) / options.duration\<close>, shared by four effects.\<close>

definition timeDiffPercentage :: "effect \<Rightarrow> jsnum" where
  "timeDiffPercentage e =
     jdiv (Fin (lastRanTimeStamp e - startedTimeStamp e)) (duration (options e))"

text \<open>The default easing function \<^verbatim>\<open>(t: number) => +t\<close>.\<close>

definition linear_ease :: "jsnum \<Rightarrow> jsnum" where
  "linear_ease t = t"

definition easing_or_default :: "(jsnum \<Rightarrow> jsnum) option \<Rightarrow> jsnum \<Rightarrow> jsnum" where
  "easing_or_default easingFn = (case easingFn of Some f \<Rightarrow> f | None \<Rightarrow> linear_ease)"

subsection \<open>ShakeEffect\<close>

definition ShakeEffect_new :: "nat \<Rightarrow> options_arg option \<Rightarrow> jsnum \<Rightarrow> world \<Rightarrow> nat \<times> world" where
  "ShakeEffect_new c opts i w =
     alloc_effect
       (CameraEffect_new c opts
          (Shake \<lparr> intensity = i,
                   initialPivotVector =
                     \<lparr> vec_x = vec_x (pivot (containers w c)),
                       vec_y = vec_y (pivot (containers w c)) \<rparr> \<rparr>)) w"

definition ShakeEffect_update :: "effect \<Rightarrow> ShakeEffect_fields \<Rightarrow> world \<Rightarrow> bool option \<times> world" where
  "ShakeEffect_update e f w =
     (let (r1, w1) = Math_random w;
          dx = jmul r1 (intensity f);
          (r2, w2) = Math_random w1;
          dy = jmul r2 (intensity f);
          c = container_ref e;
          cont = containers w2 c
      in (None, set_container c (cont\<lparr>pivot := (pivot cont)\<lparr>vec_x := dx, vec_y := dy\<rparr>\<rparr>) w2))"

definition ShakeEffect_onEnd :: "effect \<Rightarrow> ShakeEffect_fields \<Rightarrow> world \<Rightarrow> world" where
  "ShakeEffect_onEnd e f w =
     (let c = container_ref e;
          cont = containers w c
      in set_container c
           (cont\<lparr>pivot := (pivot cont)\<lparr>vec_x := vec_x (initialPivotVector f),
                                        vec_y := vec_y (initialPivotVector f)\<rparr>\<rparr>) w)"

subsection \<open>PanEffect\<close>

definition PanEffect_new :: "nat \<Rightarrow> options_arg option \<Rightarrow> Vector2 \<Rightarrow> world \<Rightarrow> nat \<times> world" where
  "PanEffect_new c opts location w =
     (let p = pivot (containers w c)
      in alloc_effect
           (CameraEffect_new c opts
              (Pan \<lparr> coordinates = location,
                     difference =
                       \<lparr> vec_x = jabs (jsub (vec_x location) (vec_x p)),
                         vec_y = jabs (jsub (vec_y location) (vec_y p)) \<rparr>,
                     pan_xIsGreater = jgt (vec_x location) (vec_x p),
                     pan_yIsGreater = jgt (vec_y location) (vec_y p) \<rparr>)) w)"

definition PanEffect_update :: "effect \<Rightarrow> PanEffect_fields \<Rightarrow> world \<Rightarrow> bool option \<times> world" where
  "PanEffect_update e f w =
     (let timeDiff = timeDiffPercentage e;
          timeDiffPercentageNegative =
            jdiv (jsub (duration (options e)) (Fin (lastRanTimeStamp e))) (duration (options e));
          xPanAmount =
            (if pan_xIsGreater f then jmul (vec_x (difference f)) timeDiff
             else jmul (vec_x (difference f)) timeDiffPercentageNegative);
          yPanAmount =
            (if pan_yIsGreater f then jmul (vec_y (difference f)) timeDiff
             else jmul (vec_y (difference f)) timeDiffPercentageNegative);
          c = container_ref e;
          cont = containers w c;
          w1 = set_container c
                 (cont\<lparr>pivot := (pivot cont)\<lparr>vec_x := xPanAmount, vec_y := yPanAmount\<rparr>\<rparr>) w;
          p = pivot (containers w1 c)
      in (if jgt (vec_x p) (jsub (vec_x (coordinates f)) (Fin 5)) \<and>
             jlt (vec_x p) (jadd (vec_x (coordinates f)) (Fin 5)) \<and>
             jgt (vec_y p) (jsub (vec_y (coordinates f)) (Fin 5)) \<and>
             jlt (vec_y p) (jadd (vec_y (coordinates f)) (Fin 5))
          then Some False else None, w1))"

subsection \<open>ZoomEffect\<close>

definition ZoomEffect_new ::
  "nat \<Rightarrow> options_arg option \<Rightarrow> Vector2 \<Rightarrow> (jsnum \<Rightarrow> jsnum) option \<Rightarrow> world \<Rightarrow> nat \<times> world" where
  "ZoomEffect_new c opts level easingFn w =
     (let initial = \<lparr> vec_x = vec_x (scale (containers w c)),
                      vec_y = vec_y (scale (containers w c)) \<rparr>
      in alloc_effect
           (CameraEffect_new c opts
              (Zoom \<lparr> zoomLevel = level,
                      zoom_easingFn = easing_or_default easingFn,
                      initialZoomLevel = initial,
                      zoom_xIsGreater = jgt (vec_x level) (vec_x initial),
                      zoom_yIsGreater = jgt (vec_y level) (vec_y initial) \<rparr>)) w)"

definition ZoomEffect_update :: "effect \<Rightarrow> ZoomEffect_fields \<Rightarrow> world \<Rightarrow> bool option \<times> world" where
  "ZoomEffect_update e f w =
     (let percentageThroughAnimation = zoom_easingFn f (timeDiffPercentage e);
          xZoomAmount = jmul (vec_x (zoomLevel f)) percentageThroughAnimation;
          yZoomAmount = jmul (vec_y (zoomLevel f)) percentageThroughAnimation;
          c = container_ref e;
          cont = containers w c;
          sx = (if zoom_xIsGreater f
                then jadd (vec_x (initialZoomLevel f)) (jdiv xZoomAmount (Fin 2))
                else jsub (vec_x (initialZoomLevel f)) xZoomAmount);
          sy = (if zoom_yIsGreater f
                then jadd (vec_y (initialZoomLevel f)) (jdiv yZoomAmount (Fin 2))
                else jsub (vec_y (initialZoomLevel f)) yZoomAmount);
          w1 = set_container c (cont\<lparr>scale := (scale cont)\<lparr>vec_x := sx, vec_y := sy\<rparr>\<rparr>) w;
          s = scale (containers w1 c)
      in (if jgt (vec_x s) (jsub (vec_x (zoomLevel f)) (Fin (1 / 100))) \<and>
             jlt (vec_x s) (jadd (vec_x (zoomLevel f)) (Fin (1 / 100))) \<and>
             jgt (vec_y s) (jsub (vec_y (zoomLevel f)) (Fin (1 / 100))) \<and>
             jlt (vec_y s) (jadd (vec_y (zoomLevel f)) (Fin (1 / 100)))
          then Some False else None, w1))"

subsection \<open>RotateEffect\<close>

definition RotateEffect_new ::
  "nat \<Rightarrow> options_arg option \<Rightarrow> jsnum \<Rightarrow> (jsnum \<Rightarrow> jsnum) option \<Rightarrow> world \<Rightarrow> nat \<times> world" where
  "RotateEffect_new c opts a easingFn w =
     (let cont = containers w c;
          initial = \<lparr> vec_x = vec_x (pivot cont), vec_y = vec_y (pivot cont) \<rparr>;
          fields = \<lparr> target_angle = a, initialAngle = angle cont, initialPivot = initial,
                     rotate_easingFn = easing_or_default easingFn \<rparr>;
          w1 = (if jeq (vec_x initial) (Fin 0)
                then set_container c
                       (cont\<lparr>pivot := (pivot cont)\<lparr>vec_x := jdiv (width cont) (Fin 2)\<rparr>\<rparr>) w
                else w);
          cont1 = containers w1 c;
          w2 = (if jeq (vec_y initial) (Fin 0)
                then set_container c
                       (cont1\<lparr>pivot := (pivot cont1)\<lparr>vec_y := jdiv (height cont1) (Fin 2)\<rparr>\<rparr>) w1
                else w1)
      in alloc_effect (CameraEffect_new c opts (Rotate fields)) w2)"

definition RotateEffect_update :: "effect \<Rightarrow> RotateEffect_fields \<Rightarrow> world \<Rightarrow> bool option \<times> world" where
  "RotateEffect_update e f w =
     (let percentageThroughAnimation = rotate_easingFn f (timeDiffPercentage e);
          angleAmount = jmul (target_angle f) percentageThroughAnimation;
          c = container_ref e;
          cont = containers w c;
          w1 = set_container c (cont\<lparr>angle := jadd (initialAngle f) angleAmount\<rparr>) w
      in (if jgt (angle (containers w1 c)) (target_angle f) then Some False else None, w1))"

subsection \<open>FadeEffect\<close>

text \<open>
  \<^verbatim>\<open>container.addChild\<close> belongs to the rendering engine; here it appends the sprite to
  the container's children and leaves the container's size as it is.
\<close>

definition FadeEffect_new ::
  "nat \<Rightarrow> options_arg option \<Rightarrow> nat \<Rightarrow> jsnum \<Rightarrow> jsnum \<Rightarrow> (jsnum \<Rightarrow> jsnum) option \<Rightarrow> world
     \<Rightarrow> nat \<times> world" where
  "FadeEffect_new c opts flt col opac easingFn w =
     (let cont = containers w c;
          w1 = set_sprite flt
                 ((sprites w flt)\<lparr>sprite_width := width cont, sprite_height := height cont,
                                  alpha := Fin 0, tint := col\<rparr>) w;
          w2 = set_container c (cont\<lparr>children := children cont @ [flt]\<rparr>) w1;
          initial = alpha (sprites w2 flt);
          fields = \<lparr> fade_filter = flt, color = col, opacity = opac,
                     fade_easingFn = easing_or_default easingFn,
                     isFadeOut = (\<not> jgt (alpha (sprites w2 flt)) opac),
                     initialOpacity = initial \<rparr>
      in alloc_effect (CameraEffect_new c opts (Fade fields)) w2)"

definition FadeEffect_update :: "effect \<Rightarrow> FadeEffect_fields \<Rightarrow> world \<Rightarrow> bool option \<times> world" where
  "FadeEffect_update e f w =
     (let percentageThroughAnimation = fade_easingFn f (timeDiffPercentage e);
          fadeAmount = jmul (Fin 1) percentageThroughAnimation;
          flt = fade_filter f;
          w1 = set_sprite flt
                 ((sprites w flt)\<lparr>alpha := (if isFadeOut f then fadeAmount
                                             else jsub (initialOpacity f) fadeAmount)\<rparr>) w;
          a = alpha (sprites w1 flt)
      in (if (isFadeOut f \<and> jge a (jsub (opacity f) (Fin (1 / 100)))) \<or>
             (\<not> isFadeOut f \<and> jle a (jadd (opacity f) (Fin (1 / 100))))
          then Some False else None, w1))"

subsection \<open>Subclasses of the host program\<close>

definition CustomEffect_new ::
  "nat \<Rightarrow> options_arg option \<Rightarrow> CustomEffect_fields \<Rightarrow> world \<Rightarrow> nat \<times> world" where
  "CustomEffect_new c opts f w = alloc_effect (CameraEffect_new c opts (Custom f)) w"

definition CustomEffect_update ::
  "jsnum \<Rightarrow> effect \<Rightarrow> CustomEffect_fields \<Rightarrow> world \<Rightarrow> bool option \<times> world" where
  "CustomEffect_update delta e f w =
     (let c = container_ref e;
          (cont, r) = custom_update f delta (startedTimeStamp e) (lastRanTimeStamp e) (containers w c)
      in (r, set_container c cont w))"

subsection \<open>Dynamic dispatch of \<^verbatim>\<open>update\<close> and \<^verbatim>\<open>onEnd\<close>\<close>

definition Effect_update :: "nat \<Rightarrow> jsnum \<Rightarrow> world \<Rightarrow> bool option \<times> world" where
  "Effect_update eid delta w =
     (let e = effects w eid;
          w1 = log_call (UpdateCalled eid delta) w
      in case kind e of
           Shake f \<Rightarrow> ShakeEffect_update e f w1
         | Pan f \<Rightarrow> PanEffect_update e f w1
         | Zoom f \<Rightarrow> ZoomEffect_update e f w1
         | Rotate f \<Rightarrow> RotateEffect_update e f w1
         | Fade f \<Rightarrow> FadeEffect_update e f w1
         | Custom f \<Rightarrow> CustomEffect_update delta e f w1)"

text \<open>Whether the object has an \<^verbatim>\<open>onEnd\<close> method: of the five effects only the shake has.\<close>

fun has_onEnd :: "effect_kind \<Rightarrow> bool" where
  "has_onEnd (Shake _) = True"
| "has_onEnd (Custom f) = (custom_onEnd f \<noteq> None)"
| "has_onEnd _ = False"

text \<open>\<^verbatim>\<open>if (effect.onEnd) effect.onEnd();\<close>\<close>

definition Effect_onEnd_if_present :: "nat \<Rightarrow> world \<Rightarrow> world" where
  "Effect_onEnd_if_present eid w =
     (let e = effects w eid
      in case kind e of
           Shake f \<Rightarrow> ShakeEffect_onEnd e f (log_call (OnEndCalled eid) w)
         | Custom f \<Rightarrow>
             (case custom_onEnd f of
                None \<Rightarrow> w
              | Some g \<Rightarrow>
                  (let w1 = log_call (OnEndCalled eid) w;
                       c = container_ref e
                   in set_container c (g (containers w1 c)) w1))
         | _ \<Rightarrow> w)"

section \<open>Camera\<close>

record Camera =
  camera_effects :: "nat list"

definition Camera_new :: Camera where
  "Camera_new = \<lparr> camera_effects = [] \<rparr>"

definition addEffect :: "nat \<Rightarrow> Camera \<Rightarrow> Camera" where
  "addEffect eid cam = cam\<lparr>camera_effects := camera_effects cam @ [eid]\<rparr>"

text \<open>
  \<^verbatim>\<open>this._effects = this._effects.filter((e) => e !== effect)\<close>: the test is on object
  identity, that is on addresses. The world goes in and comes out so that what the method
  leaves alone can be stated.
\<close>

definition removeEffect :: "nat \<Rightarrow> Camera \<Rightarrow> world \<Rightarrow> Camera \<times> world" where
  "removeEffect eid cam w =
     (cam\<lparr>camera_effects := filter (\<lambda>e. e \<noteq> eid) (camera_effects cam)\<rparr>, w)"

text \<open>
  The callback \<^verbatim>\<open>Camera.update\<close> hands to \<^verbatim>\<open>filter\<close>: it returns whether the effect
  stays. \<^verbatim>\<open>performance.now()\<close> is read up to three times.
\<close>

definition stamp_started :: "nat \<Rightarrow> world \<Rightarrow> world" where
  "stamp_started eid w =
     (if startedTimeStamp (effects w eid) = 0
      then (let (t, w') = performance_now w
            in set_effect eid ((effects w' eid)\<lparr>startedTimeStamp := t\<rparr>) w')
      else w)"

definition Camera_update_effect :: "jsnum \<Rightarrow> nat \<Rightarrow> world \<Rightarrow> bool \<times> world" where
  "Camera_update_effect delta eid w =
     (let w1 = stamp_started eid w;
          (continueEffect, w2) = Effect_update eid delta w1
      in if continueEffect = Some False then (False, Effect_onEnd_if_present eid w2)
         else
           (let (t, w3) = performance_now w2;
                w4 = set_effect eid ((effects w3 eid)\<lparr>lastRanTimeStamp := t\<rparr>) w3;
                (currentTimestamp, w5) = performance_now w4;
                e = effects w5 eid;
                durationReached =
                  jge (Fin (currentTimestamp - startedTimeStamp e)) (duration (options e));
                (endConditionReached, w6) =
                  (case endCondition (options e) of
                     None \<Rightarrow> (False, w5)
                   | Some cond \<Rightarrow>
                       (cond delta = JBool True, log_call (EndConditionCalled eid delta) w5))
            in if durationReached \<or> endConditionReached
               then (False, Effect_onEnd_if_present eid w6)
               else (True, w6)))"

text \<open>\<^verbatim>\<open>Array.prototype.filter\<close> with that callback: front to back, one call per entry.\<close>

fun filter_effects :: "jsnum \<Rightarrow> nat list \<Rightarrow> world \<Rightarrow> nat list \<times> world" where
  "filter_effects delta [] w = ([], w)"
| "filter_effects delta (eid # rest) w =
     (let (keep, w1) = Camera_update_effect delta eid w;
          (kept, w2) = filter_effects delta rest w1
      in (if keep then eid # kept else kept, w2))"

definition Camera_update :: "jsnum \<Rightarrow> Camera \<Rightarrow> world \<Rightarrow> Camera \<times> world" where
  "Camera_update delta cam w =
     (let (kept, w1) = filter_effects delta (camera_effects cam) w
      in (cam\<lparr>camera_effects := kept\<rparr>, w1))"

text \<open>The render loop: one call of \<^verbatim>\<open>camera.update\<close> per frame, each with its delta.\<close>

fun ticks :: "jsnum list \<Rightarrow> Camera \<Rightarrow> world \<Rightarrow> Camera \<times> world" where
  "ticks [] cam w = (cam, w)"
| "ticks (delta # deltas) cam w =
     (let (cam1, w1) = Camera_update delta cam w in ticks deltas cam1 w1)"

section \<open>Vocabulary of the specification\<close>

text \<open>
  A value lies strictly within a tolerance of a target; with NaN on either side it does
  not. This is the test the pan and zoom effects make before they stop.
\<close>

definition within_tol :: "jsnum \<Rightarrow> jsnum \<Rightarrow> real \<Rightarrow> bool" where
  "within_tol a target tol = (jgt a (jsub target (Fin tol)) \<and> jlt a (jadd target (Fin tol)))"

text \<open>
  Linear interpolation as the specification words it: from an initial value toward a
  target, by a fraction.
\<close>

definition linear_interpolation :: "jsnum \<Rightarrow> jsnum \<Rightarrow> jsnum \<Rightarrow> jsnum" where
  "linear_interpolation initial target fraction =
     jadd initial (jmul (jsub target initial) fraction)"

section \<open>Example scenes\<close>

text \<open>
  The stage of a fresh PIXI application as the test-suite uses it, a white sprite, and a
  world holding nothing else. The clock and the random source are parameters.
\<close>

definition stage :: container where
  "stage = \<lparr> pivot = \<lparr> vec_x = Fin 0, vec_y = Fin 0 \<rparr>,
             scale = \<lparr> vec_x = Fin 1, vec_y = Fin 1 \<rparr>,
             angle = Fin 0, width = Fin 800, height = Fin 600, children = [] \<rparr>"

definition white_sprite :: sprite where
  "white_sprite =
     \<lparr> sprite_width = Fin 16, sprite_height = Fin 16, alpha = Fin 1, tint = Fin 16777215 \<rparr>"

definition idle_effect :: effect where
  "idle_effect =
     CameraEffect_new 0 None
       (Custom \<lparr> custom_update = (\<lambda>_ _ _ c. (c, None)), custom_onEnd = None \<rparr>)"

definition empty_world :: "(nat \<Rightarrow> real) \<Rightarrow> (nat \<Rightarrow> real) \<Rightarrow> world" where
  "empty_world clk rnd =
     \<lparr> containers = (\<lambda>_. stage), sprites = (\<lambda>_. white_sprite), effects = (\<lambda>_. idle_effect),
       next_effect = 0, clock = clk, clock_reads = 0, random = rnd, random_reads = 0,
       calls = [] \<rparr>"

definition two_seconds :: "options_arg option" where
  "two_seconds = Some \<lparr> arg_duration = Some (Fin 2000), arg_endCondition = None \<rparr>"

definition shake_world :: world where
  "shake_world = snd (ShakeEffect_new 0 two_seconds (Fin 5) (empty_world (\<lambda>_. 16) (\<lambda>_. 1 / 2)))"

definition pan_world :: world where
  "pan_world =
     snd (PanEffect_new 0 two_seconds \<lparr> vec_x = Fin 2, vec_y = Fin 3 \<rparr>
            (empty_world (\<lambda>_. 16) (\<lambda>_. 1 / 2)))"

definition brief_shake_world :: world where
  "brief_shake_world = snd (ShakeEffect_new 0 None (Fin 5) (empty_world (\<lambda>_. 16) (\<lambda>_. 1 / 2)))"

definition truthy_condition_world :: world where
  "truthy_condition_world =
     snd (ShakeEffect_new 0
            (Some \<lparr> arg_duration = Some (Fin 2000),
                    arg_endCondition = Some (\<lambda>_. JNumber (Fin 1)) \<rparr>)
            (Fin 5) (empty_world (\<lambda>_. 16) (\<lambda>_. 1 / 2)))"

definition true_condition_world :: world where
  "true_condition_world =
     snd (ShakeEffect_new 0
            (Some \<lparr> arg_duration = Some (Fin 2000),
                    arg_endCondition = Some (\<lambda>_. JBool True) \<rparr>)
            (Fin 5) (empty_world (\<lambda>_. 16) (\<lambda>_. 1 / 2)))"

definition endless_shake_world :: world where
  "endless_shake_world =
     snd (ShakeEffect_new 0 (Some \<lparr> arg_duration = Some PInf, arg_endCondition = None \<rparr>)
            (Fin 5) (empty_world (\<lambda>n. 1000000 * real (Suc n)) (\<lambda>_. 1 / 2)))"

definition zero_clock_world :: world where
  "zero_clock_world =
     snd (ShakeEffect_new 0 two_seconds (Fin 5)
            (empty_world (\<lambda>n. if n < 3 then 0 else 16) (\<lambda>_. 1 / 2)))"

definition offset_stage :: container where
  "offset_stage = stage\<lparr>pivot := \<lparr> vec_x = Fin 7, vec_y = Fin 9 \<rparr>\<rparr>"

definition offset_shake_world :: world where
  "offset_shake_world =
     snd (ShakeEffect_new 0
            (Some \<lparr> arg_duration = Some (Fin 5000), arg_endCondition = None \<rparr>) (Fin 5)
            ((empty_world (\<lambda>n. 1000 * real (Suc n)) (\<lambda>_. 1 / 2))
               \<lparr>containers := (\<lambda>_. offset_stage)\<rparr>))"

definition zoom_world :: world where
  "zoom_world =
     snd (ZoomEffect_new 0
            (Some \<lparr> arg_duration = Some (Fin 4000), arg_endCondition = None \<rparr>)
            \<lparr> vec_x = Fin 2, vec_y = Fin (1 / 2) \<rparr> None
            (empty_world (\<lambda>n. 1000 * real (Suc n)) (\<lambda>_. 1 / 2)))"

definition zoom_world_at_end :: world where
  "zoom_world_at_end =
     set_effect 0 ((effects zoom_world 0)\<lparr>startedTimeStamp := 1000, lastRanTimeStamp := 5000\<rparr>)
       zoom_world"

definition shifted_stage :: container where
  "shifted_stage = stage\<lparr>pivot := \<lparr> vec_x = Fin 100, vec_y = Fin 100 \<rparr>\<rparr>"

definition shifted_pan_world :: world where
  "shifted_pan_world =
     snd (PanEffect_new 0
            (Some \<lparr> arg_duration = Some (Fin 4000), arg_endCondition = None \<rparr>)
            \<lparr> vec_x = Fin 150, vec_y = Fin 150 \<rparr>
            ((empty_world (\<lambda>n. 1000 * real (Suc n)) (\<lambda>_. 1 / 2))
               \<lparr>containers := (\<lambda>_. shifted_stage)\<rparr>))"

definition shifted_pan_world_at_end :: world where
  "shifted_pan_world_at_end =
     set_effect 0
       ((effects shifted_pan_world 0)\<lparr>startedTimeStamp := 1000, lastRanTimeStamp := 5000\<rparr>)
       shifted_pan_world"

definition four_seconds :: "options_arg option" where
  "four_seconds = Some \<lparr> arg_duration = Some (Fin 4000), arg_endCondition = None \<rparr>"






definition fade_world :: world where
  "fade_world =
     snd (FadeEffect_new 0 four_seconds 0 (Fin 0) (Fin 1) None
            (empty_world (\<lambda>n. 1000 * real (Suc n)) (\<lambda>_. 1 / 2)))"

definition fade_world_at_end :: world where
  "fade_world_at_end =
     set_effect 0 ((effects fade_world 0)\<lparr>startedTimeStamp := 1000, lastRanTimeStamp := 5000\<rparr>)
       fade_world"

definition first_frame_fade_world :: world where
  "first_frame_fade_world =
     snd (FadeEffect_new 0 two_seconds 0 (Fin 0) (Fin 1) None
            (empty_world (\<lambda>_. 16) (\<lambda>_. 1 / 2)))"

text \<open>An easing function that dips below zero before it rises, as "back" easings do.\<close>

definition back_in :: "jsnum \<Rightarrow> jsnum" where
  "back_in t = jmul (jmul t t) (jsub (jmul (Fin 3) t) (Fin 2))"

definition eased_fade_world :: world where
  "eased_fade_world =
     snd (FadeEffect_new 0 four_seconds 0 (Fin 0) (Fin 1) (Some back_in)
            (empty_world (\<lambda>n. 1000 * real (Suc n)) (\<lambda>_. 1 / 2)))"

section \<open>Properties\<close>

subsection \<open>What an effect's methods leave alone\<close>

lemmas world_ops = log_call_def set_container_def set_sprite_def set_effect_def
  performance_now_def Math_random_def

lemmas effect_updates = Effect_update_def ShakeEffect_update_def PanEffect_update_def
  ZoomEffect_update_def RotateEffect_update_def FadeEffect_update_def CustomEffect_update_def

lemma Effect_update_effects: "effects (snd (Effect_update eid delta w)) = effects w"
  by (simp add: effect_updates world_ops Let_def split: effect_kind.splits prod.splits)

lemma Effect_update_calls:
  "calls (snd (Effect_update eid delta w)) = calls w @ [UpdateCalled eid delta]"
  by (simp add: effect_updates world_ops Let_def split: effect_kind.splits prod.splits)

lemma Effect_update_clock:
  "clock (snd (Effect_update eid delta w)) = clock w \<and>
   clock_reads (snd (Effect_update eid delta w)) = clock_reads w"
  by (simp add: effect_updates world_ops Let_def split: effect_kind.splits prod.splits)

lemma Effect_onEnd_effects: "effects (Effect_onEnd_if_present eid w) = effects w"
  by (simp add: Effect_onEnd_if_present_def ShakeEffect_onEnd_def world_ops Let_def
      split: effect_kind.splits option.splits)

lemma Effect_onEnd_calls:
  "calls (Effect_onEnd_if_present eid w) =
     calls w @ (if has_onEnd (kind (effects w eid)) then [OnEndCalled eid] else [])"
  by (simp add: Effect_onEnd_if_present_def ShakeEffect_onEnd_def world_ops Let_def
      split: effect_kind.splits option.splits)

lemma Effect_onEnd_clock:
  "clock (Effect_onEnd_if_present eid w) = clock w \<and>
   clock_reads (Effect_onEnd_if_present eid w) = clock_reads w"
  by (simp add: Effect_onEnd_if_present_def ShakeEffect_onEnd_def world_ops Let_def
      split: effect_kind.splits option.splits)

subsection \<open>Removing an effect by hand\<close>

lemma count_list_filter_other:
  "P x \<Longrightarrow> count_list (filter P xs) x = count_list xs x"
  by (induction xs) auto

text \<open>
  C10. \<^verbatim>\<open>removeEffect\<close> drops every entry that is the given object and keeps the others in
  their order and multiplicity; the world is the same afterwards, so no \<^verbatim>\<open>onEnd\<close> hook
  has been called (the call log is part of the world) and no container or sprite has
  changed; when the object is not in the collection the camera is unchanged.
\<close>

theorem removeEffect_frame:
  assumes "removeEffect eid cam w = (cam', w')"
  shows "w' = w \<and>
         eid \<notin> set (camera_effects cam') \<and>
         subseq (camera_effects cam') (camera_effects cam) \<and>
         (\<forall>x. x \<noteq> eid \<longrightarrow>
              count_list (camera_effects cam') x = count_list (camera_effects cam) x) \<and>
         (eid \<notin> set (camera_effects cam) \<longrightarrow> cam' = cam)"
proof -
  from assms have c: "camera_effects cam' = filter (\<lambda>e. e \<noteq> eid) (camera_effects cam)"
    and w: "w' = w"
    and r: "cam' = cam\<lparr>camera_effects := filter (\<lambda>e. e \<noteq> eid) (camera_effects cam)\<rparr>"
    by (auto simp: removeEffect_def)
  have absent: "eid \<notin> set (camera_effects cam')" by (simp add: c)
  have order: "subseq (camera_effects cam') (camera_effects cam)" by (simp add: c)
  have others: "\<forall>x. x \<noteq> eid \<longrightarrow>
      count_list (camera_effects cam') x = count_list (camera_effects cam) x"
    unfolding c by (simp add: count_list_filter_other)
  have same: "eid \<notin> set (camera_effects cam) \<longrightarrow> cam' = cam"
  proof
    assume "eid \<notin> set (camera_effects cam)"
    then have "filter (\<lambda>e. e \<noteq> eid) (camera_effects cam) = camera_effects cam"
      by (simp add: filter_id_conv) blast
    then show "cam' = cam" by (simp add: r)
  qed
  from w absent order others same show ?thesis by blast
qed

theorem removeEffect_frame_witness:
  "removeEffect 1 \<lparr> camera_effects = [1, 2, 1, 3] \<rparr> (empty_world (\<lambda>_. 16) (\<lambda>_. 0)) =
     (\<lparr> camera_effects = [2, 3] \<rparr>, empty_world (\<lambda>_. 16) (\<lambda>_. 0)) \<and>
   (1::nat) \<notin> set [2, 3] \<and> subseq [2, 3] [1, 2, 1, 3::nat] \<and>
   count_list [2, 3] (2::nat) = count_list [1, 2, 1, 3::nat] 2 \<and>
   (4::nat) \<notin> set [1, 2, 1, 3] \<and>
   removeEffect 4 \<lparr> camera_effects = [1, 2, 1, 3] \<rparr> (empty_world (\<lambda>_. 16) (\<lambda>_. 0)) =
     (\<lparr> camera_effects = [1, 2, 1, 3] \<rparr>, empty_world (\<lambda>_. 16) (\<lambda>_. 0))"
proof -
  have h: "removeEffect 1 \<lparr> camera_effects = [1, 2, 1, 3] \<rparr> (empty_world (\<lambda>_. 16) (\<lambda>_. 0)) =
     (\<lparr> camera_effects = [2, 3] \<rparr>, empty_world (\<lambda>_. 16) (\<lambda>_. 0))"
    by (simp add: removeEffect_def)
  have h4: "removeEffect 4 \<lparr> camera_effects = [1, 2, 1, 3] \<rparr> (empty_world (\<lambda>_. 16) (\<lambda>_. 0)) =
     (\<lparr> camera_effects = [1, 2, 1, 3] \<rparr>, empty_world (\<lambda>_. 16) (\<lambda>_. 0))"
    by (simp add: removeEffect_def)
  from removeEffect_frame [OF h] removeEffect_frame [OF h4] h h4 show ?thesis by simp
qed

subsection \<open>Evaluating the examples\<close>

lemmas example_defs = two_seconds_def empty_world_def stage_def white_sprite_def
  idle_effect_def alloc_effect_def CameraEffect_new_def CameraEffect_options_def

lemmas jsnum_defs = jsub_def jgt_def jge_def jle_def jeq_def signed_inf_def timeDiffPercentage_def

lemmas tick_eval = ShakeEffect_new_def Camera_update_def Camera_update_effect_def
  stamp_started_def Effect_onEnd_if_present_def ShakeEffect_onEnd_def effect_updates world_ops
  Let_def jsnum_defs

subsection \<open>One tick of the camera\<close>

lemma stamp_started_effects:
  "effects (stamp_started eid w) =
     (if startedTimeStamp (effects w eid) = 0
      then (effects w)(eid := (effects w eid)\<lparr>startedTimeStamp := clock w (clock_reads w)\<rparr>)
      else effects w)"
  by (simp add: stamp_started_def world_ops)

lemma stamp_started_frame:
  "calls (stamp_started eid w) = calls w \<and> clock (stamp_started eid w) = clock w \<and>
   clock_reads (stamp_started eid w) =
     (if startedTimeStamp (effects w eid) = 0 then Suc (clock_reads w) else clock_reads w)"
  by (simp add: stamp_started_def world_ops)

lemma stamp_started_same:
  "kind (effects (stamp_started eid w) eid) = kind (effects w eid) \<and>
   options (effects (stamp_started eid w) eid) = options (effects w eid) \<and>
   lastRanTimeStamp (effects (stamp_started eid w) eid) = lastRanTimeStamp (effects w eid) \<and>
   startedTimeStamp (effects (stamp_started eid w) eid) =
     (if startedTimeStamp (effects w eid) = 0 then clock w (clock_reads w)
      else startedTimeStamp (effects w eid))"
  by (simp add: stamp_started_effects)

lemma Effect_update_frame:
  assumes "Effect_update eid delta w = (r, wu)"
  shows "effects wu = effects w" "calls wu = calls w @ [UpdateCalled eid delta]"
    "clock wu = clock w" "clock_reads wu = clock_reads w"
  using assms Effect_update_effects [of eid delta w] Effect_update_calls [of eid delta w]
    Effect_update_clock [of eid delta w] by simp_all

lemma Camera_update_effect_stop:
  assumes "Effect_update eid delta (stamp_started eid w) = (Some False, wu)"
  shows "Camera_update_effect delta eid w = (False, Effect_onEnd_if_present eid wu)"
  using assms by (simp add: Camera_update_effect_def)

lemma Camera_update_effect_go_keep:
  assumes "Effect_update eid delta (stamp_started eid w) = (r, wu)" "r \<noteq> Some False"
  shows "fst (Camera_update_effect delta eid w) \<longleftrightarrow>
     \<not> (jge (Fin (clock wu (Suc (clock_reads wu)) - startedTimeStamp (effects wu eid)))
            (duration (options (effects wu eid))) \<or>
        (\<exists>cond. endCondition (options (effects wu eid)) = Some cond \<and> cond delta = JBool True))"
  using assms
  by (simp add: Camera_update_effect_def world_ops Let_def split: option.splits)

lemma Camera_update_effect_go_effects:
  assumes "Effect_update eid delta (stamp_started eid w) = (r, wu)" "r \<noteq> Some False"
  shows "effects (snd (Camera_update_effect delta eid w)) =
     (effects wu)(eid := (effects wu eid)\<lparr>lastRanTimeStamp := clock wu (clock_reads wu)\<rparr>)"
  using assms
  by (simp add: Camera_update_effect_def world_ops Let_def Effect_onEnd_effects split: option.splits)

lemma Camera_update_effect_go_calls:
  assumes "Effect_update eid delta (stamp_started eid w) = (r, wu)" "r \<noteq> Some False"
  shows "calls (snd (Camera_update_effect delta eid w)) =
     calls wu @ (case endCondition (options (effects wu eid)) of None \<Rightarrow> []
                | Some _ \<Rightarrow> [EndConditionCalled eid delta])
       @ (if \<not> fst (Camera_update_effect delta eid w) \<and> has_onEnd (kind (effects wu eid))
          then [OnEndCalled eid] else [])"
  using assms
  by (simp add: Camera_update_effect_def world_ops Let_def Effect_onEnd_calls split: option.splits)

lemma Camera_update_effect_go_clock:
  assumes "Effect_update eid delta (stamp_started eid w) = (r, wu)" "r \<noteq> Some False"
  shows "clock_reads (snd (Camera_update_effect delta eid w)) = Suc (Suc (clock_reads wu))"
  using assms
  by (simp add: Camera_update_effect_def world_ops Let_def Effect_onEnd_clock split: option.splits)

lemma filter_effects_append:
  "filter_effects delta (xs @ ys) w =
     (let (k1, w1) = filter_effects delta xs w;
          (k2, w2) = filter_effects delta ys w1
      in (k1 @ k2, w2))"
  by (induction xs arbitrary: w) (simp_all add: Let_def split: prod.splits)

lemma Camera_update_in_order:
  assumes "camera_effects cam = before @ eid # after"
    and "filter_effects delta before w0 = (kept_before, w)"
    and "Camera_update_effect delta eid w = (keep, w')"
    and "filter_effects delta after w' = (kept_after, w_end)"
  shows "Camera_update delta cam w0 =
     (cam\<lparr>camera_effects := kept_before @ (if keep then [eid] else []) @ kept_after\<rparr>, w_end)"
  using assms by (simp add: Camera_update_def filter_effects_append Let_def)


text \<open>
  C1. One tick, for the effect \<open>eid\<close> at any position of the collection. An effect
  that is added goes to the end of the collection; the effects before \<open>eid\<close> have been
  handled first and those after it are handled afterwards, and \<open>eid\<close> stays in the
  collection exactly when its callback says \<open>keep\<close>. A start time of 0 is replaced
  by the clock's reading; then \<^verbatim>\<open>update(delta)\<close> is called. If it returns \<^verbatim>\<open>false\<close> the effect is dropped, \<^verbatim>\<open>onEnd\<close> is called when
  the effect has one, \<^verbatim>\<open>lastRanTimeStamp\<close> keeps its value, the clock is not read again
  and the end condition is not called. Otherwise \<^verbatim>\<open>lastRanTimeStamp\<close> takes the next
  reading, and the effect is dropped (with \<^verbatim>\<open>onEnd\<close> when it has one) exactly when the
  reading after that minus the start time is at least the duration or the end condition
  returns \<^verbatim>\<open>true\<close>.
\<close>

theorem Camera_update_lifecycle:
  assumes split: "camera_effects cam = before @ eid # after"
    and pre: "filter_effects delta before w0 = (kept_before, w)"
    and upd: "Effect_update eid delta (stamp_started eid w) = (continueEffect, wu)"
    and cb: "Camera_update_effect delta eid w = (keep, w')"
    and post: "filter_effects delta after w' = (kept_after, w_end)"
  shows
    "camera_effects (addEffect added cam) = before @ eid # after @ [added] \<and>
     Camera_update delta cam w0 =
       (cam\<lparr>camera_effects := kept_before @ (if keep then [eid] else []) @ kept_after\<rparr>, w_end) \<and>
     startedTimeStamp (effects w' eid) =
       (if startedTimeStamp (effects w eid) = 0 then clock w (clock_reads w)
        else startedTimeStamp (effects w eid)) \<and>
     clock_reads (stamp_started eid w) =
       (if startedTimeStamp (effects w eid) = 0 then Suc (clock_reads w) else clock_reads w) \<and>
     (continueEffect = Some False \<longrightarrow>
        \<not> keep \<and>
        lastRanTimeStamp (effects w' eid) = lastRanTimeStamp (effects w eid) \<and>
        clock_reads w' = clock_reads (stamp_started eid w) \<and>
        calls w' =
          calls w @ UpdateCalled eid delta #
            (if has_onEnd (kind (effects w eid)) then [OnEndCalled eid] else [])) \<and>
     (continueEffect \<noteq> Some False \<longrightarrow>
        lastRanTimeStamp (effects w' eid) = clock w (clock_reads (stamp_started eid w)) \<and>
        clock_reads w' = Suc (Suc (clock_reads (stamp_started eid w))) \<and>
        (\<not> keep \<longleftrightarrow>
           jge (Fin (clock w (Suc (clock_reads (stamp_started eid w)))
                       - startedTimeStamp (effects w' eid)))
               (duration (options (effects w eid))) \<or>
           (\<exists>cond. endCondition (options (effects w eid)) = Some cond \<and>
                   cond delta = JBool True)) \<and>
        calls w' =
          calls w @ UpdateCalled eid delta #
            (case endCondition (options (effects w eid)) of
               None \<Rightarrow> [] | Some _ \<Rightarrow> [EndConditionCalled eid delta]) @
            (if \<not> keep \<and> has_onEnd (kind (effects w eid)) then [OnEndCalled eid] else []))"
proof -
  note fr = Effect_update_frame [OF upd] stamp_started_frame [of eid w]
    stamp_started_same [of eid w]
  have order: "Camera_update delta cam w0 =
       (cam\<lparr>camera_effects := kept_before @ (if keep then [eid] else []) @ kept_after\<rparr>, w_end)"
    by (rule Camera_update_in_order [OF split pre cb post])
  have reads: "clock_reads (stamp_started eid w) =
       (if startedTimeStamp (effects w eid) = 0 then Suc (clock_reads w) else clock_reads w)"
    by (simp add: fr)
  have stop: "\<not> keep \<and>
        startedTimeStamp (effects w' eid) =
          (if startedTimeStamp (effects w eid) = 0 then clock w (clock_reads w)
           else startedTimeStamp (effects w eid)) \<and>
        lastRanTimeStamp (effects w' eid) = lastRanTimeStamp (effects w eid) \<and>
        clock_reads w' = clock_reads (stamp_started eid w) \<and>
        calls w' =
          calls w @ UpdateCalled eid delta #
            (if has_onEnd (kind (effects w eid)) then [OnEndCalled eid] else [])"
    if f: "continueEffect = Some False"
  proof -
    from upd f cb have w': "w' = Effect_onEnd_if_present eid wu" and k: "\<not> keep"
      using Camera_update_effect_stop [of eid delta w wu] by simp_all
    show ?thesis
      using k by (simp add: w' Effect_onEnd_effects Effect_onEnd_calls Effect_onEnd_clock fr)
  qed
  have go: "startedTimeStamp (effects w' eid) =
          (if startedTimeStamp (effects w eid) = 0 then clock w (clock_reads w)
           else startedTimeStamp (effects w eid)) \<and>
        lastRanTimeStamp (effects w' eid) = clock w (clock_reads (stamp_started eid w)) \<and>
        clock_reads w' = Suc (Suc (clock_reads (stamp_started eid w))) \<and>
        (\<not> keep \<longleftrightarrow>
           jge (Fin (clock w (Suc (clock_reads (stamp_started eid w)))
                       - startedTimeStamp (effects w' eid)))
               (duration (options (effects w eid))) \<or>
           (\<exists>cond. endCondition (options (effects w eid)) = Some cond \<and>
                   cond delta = JBool True)) \<and>
        calls w' =
          calls w @ UpdateCalled eid delta #
            (case endCondition (options (effects w eid)) of
               None \<Rightarrow> [] | Some _ \<Rightarrow> [EndConditionCalled eid delta]) @
            (if \<not> keep \<and> has_onEnd (kind (effects w eid)) then [OnEndCalled eid] else [])"
    if nf: "continueEffect \<noteq> Some False"
  proof -
    have k: "fst (Camera_update_effect delta eid w) = keep"
      and w': "snd (Camera_update_effect delta eid w) = w'"
      using cb by simp_all
    note go = Camera_update_effect_go_keep [OF upd nf] Camera_update_effect_go_effects [OF upd nf]
      Camera_update_effect_go_calls [OF upd nf] Camera_update_effect_go_clock [OF upd nf]
    have eff: "effects w' =
        (effects wu)(eid := (effects wu eid)\<lparr>lastRanTimeStamp := clock wu (clock_reads wu)\<rparr>)"
      using go(2) by (simp add: w')
    have started: "startedTimeStamp (effects w' eid) =
          (if startedTimeStamp (effects w eid) = 0 then clock w (clock_reads w)
           else startedTimeStamp (effects w eid))"
      by (simp add: eff fr)
    have ran: "lastRanTimeStamp (effects w' eid) = clock w (clock_reads (stamp_started eid w))"
      by (simp add: eff fr)
    have rd: "clock_reads w' = Suc (Suc (clock_reads (stamp_started eid w)))"
      using go(4) by (simp add: w' fr)
    have kp: "\<not> keep \<longleftrightarrow>
           jge (Fin (clock w (Suc (clock_reads (stamp_started eid w)))
                       - startedTimeStamp (effects w' eid)))
               (duration (options (effects w eid))) \<or>
           (\<exists>cond. endCondition (options (effects w eid)) = Some cond \<and>
                   cond delta = JBool True)"
      using go(1) unfolding k started by (simp add: fr)
    have cl: "calls w' =
          calls w @ UpdateCalled eid delta #
            (case endCondition (options (effects w eid)) of
               None \<Rightarrow> [] | Some _ \<Rightarrow> [EndConditionCalled eid delta]) @
            (if \<not> keep \<and> has_onEnd (kind (effects w eid)) then [OnEndCalled eid] else [])"
      using go(3) unfolding k w' by (simp add: fr)
    from started ran rd kp cl show ?thesis by blast
  qed
  have started: "startedTimeStamp (effects w' eid) =
       (if startedTimeStamp (effects w eid) = 0 then clock w (clock_reads w)
        else startedTimeStamp (effects w eid))"
    using stop go by blast
  have added: "camera_effects (addEffect added cam) = before @ eid # after @ [added]"
    by (simp add: addEffect_def split)
  from added order started reads stop go show ?thesis by blast
qed


theorem Camera_update_lifecycle_witness:
  "fst (Camera_update (Fin 1) \<lparr> camera_effects = [0] \<rparr> shake_world) = \<lparr> camera_effects = [0] \<rparr> \<and>
   startedTimeStamp (effects (snd (Camera_update_effect (Fin 1) 0 shake_world)) 0) = 16 \<and>
   lastRanTimeStamp (effects (snd (Camera_update_effect (Fin 1) 0 shake_world)) 0) = 16 \<and>
   calls (snd (Camera_update_effect (Fin 1) 0 shake_world)) = [UpdateCalled 0 (Fin 1)] \<and>
   fst (Camera_update (Fin 1) \<lparr> camera_effects = [0] \<rparr> pan_world) = \<lparr> camera_effects = [] \<rparr> \<and>
   startedTimeStamp (effects (snd (Camera_update_effect (Fin 1) 0 pan_world)) 0) = 16 \<and>
   lastRanTimeStamp (effects (snd (Camera_update_effect (Fin 1) 0 pan_world)) 0) = 0 \<and>
   calls (snd (Camera_update_effect (Fin 1) 0 pan_world)) = [UpdateCalled 0 (Fin 1)] \<and>
   fst (Camera_update (Fin 1) \<lparr> camera_effects = [0] \<rparr> brief_shake_world) =
     \<lparr> camera_effects = [] \<rparr> \<and>
   lastRanTimeStamp (effects (snd (Camera_update_effect (Fin 1) 0 brief_shake_world)) 0) = 16 \<and>
   calls (snd (Camera_update_effect (Fin 1) 0 brief_shake_world)) =
     [UpdateCalled 0 (Fin 1), OnEndCalled 0]"
proof -
  note ev = example_defs shake_world_def pan_world_def brief_shake_world_def
    ShakeEffect_new_def PanEffect_new_def Camera_update_effect_def stamp_started_def
    effect_updates world_ops Let_def jsnum_defs
  have cam: "camera_effects \<lparr> camera_effects = [0::nat] \<rparr> = [] @ 0 # []" by simp
  have nil: "filter_effects (Fin 1) [] v = ([], v)" for v by simp
  have u1: "Effect_update 0 (Fin 1) (stamp_started 0 shake_world) =
      (None, snd (Effect_update 0 (Fin 1) (stamp_started 0 shake_world)))"
    by (simp add: ev prod_eq_iff split: prod.splits)
  have c1: "Camera_update_effect (Fin 1) 0 shake_world =
      (True, snd (Camera_update_effect (Fin 1) 0 shake_world))"
    by (simp add: ev prod_eq_iff split: prod.splits)
  have u2: "Effect_update 0 (Fin 1) (stamp_started 0 pan_world) =
      (Some False, snd (Effect_update 0 (Fin 1) (stamp_started 0 pan_world)))"
    by (simp add: ev prod_eq_iff split: prod.splits)
  have c2: "Camera_update_effect (Fin 1) 0 pan_world =
      (False, snd (Camera_update_effect (Fin 1) 0 pan_world))"
    by (simp add: ev prod_eq_iff split: prod.splits)
  have u3: "Effect_update 0 (Fin 1) (stamp_started 0 brief_shake_world) =
      (None, snd (Effect_update 0 (Fin 1) (stamp_started 0 brief_shake_world)))"
    by (simp add: ev prod_eq_iff split: prod.splits)
  have c3: "Camera_update_effect (Fin 1) 0 brief_shake_world =
      (False, snd (Camera_update_effect (Fin 1) 0 brief_shake_world))"
    by (simp add: ev prod_eq_iff split: prod.splits)
  have s1: "startedTimeStamp (effects shake_world 0) = 0 \<and> clock shake_world = (\<lambda>_. 16) \<and>
      calls shake_world = [] \<and> endCondition (options (effects shake_world 0)) = None"
    by (simp add: ev)
  have s2: "startedTimeStamp (effects pan_world 0) = 0 \<and> clock pan_world = (\<lambda>_. 16) \<and>
      calls pan_world = [] \<and> lastRanTimeStamp (effects pan_world 0) = 0 \<and>
      \<not> has_onEnd (kind (effects pan_world 0))"
    by (simp add: ev)
  have s3: "startedTimeStamp (effects brief_shake_world 0) = 0 \<and>
      clock brief_shake_world = (\<lambda>_. 16) \<and> calls brief_shake_world = [] \<and>
      endCondition (options (effects brief_shake_world 0)) = None \<and>
      has_onEnd (kind (effects brief_shake_world 0))"
    by (simp add: ev)
  from Camera_update_lifecycle [OF cam nil u1 c1 nil] s1
    Camera_update_lifecycle [OF cam nil u2 c2 nil] s2
    Camera_update_lifecycle [OF cam nil u3 c3 nil] s3
  show ?thesis by simp
qed

subsection \<open>The end condition\<close>

lemma jlt_not_jge: "jlt a b \<Longrightarrow> \<not> jge a b"
  by (cases a; cases b) (simp_all add: jge_def jle_def)

text \<open>
  C9. When \<^verbatim>\<open>update\<close> has not returned \<^verbatim>\<open>false\<close> and the elapsed time is below the
  duration, the effect is dropped exactly when it has an end condition and that returns
  the boolean \<^verbatim>\<open>true\<close>; any other truthy result keeps the effect.
\<close>

theorem endCondition_only_true:
  assumes upd: "Effect_update eid delta (stamp_started eid w) = (continueEffect, wu)"
    and nf: "continueEffect \<noteq> Some False"
    and cb: "Camera_update_effect delta eid w = (keep, w')"
    and below: "jlt (Fin (clock w (Suc (clock_reads (stamp_started eid w)))
                            - startedTimeStamp (effects (stamp_started eid w) eid)))
                    (duration (options (effects w eid)))"
  shows "(\<not> keep \<longleftrightarrow>
            (\<exists>cond. endCondition (options (effects w eid)) = Some cond \<and>
                    cond delta = JBool True)) \<and>
         (\<forall>cond. endCondition (options (effects w eid)) = Some cond \<and>
                 truthy (cond delta) \<and> cond delta \<noteq> JBool True \<longrightarrow> keep)"
proof -
  note fr = Effect_update_frame [OF upd] stamp_started_frame [of eid w]
    stamp_started_same [of eid w]
  have k: "fst (Camera_update_effect delta eid w) = keep" using cb by simp
  have nd: "\<not> jge (Fin (clock wu (Suc (clock_reads wu)) - startedTimeStamp (effects wu eid)))
                  (duration (options (effects wu eid)))"
    using jlt_not_jge [OF below] by (simp add: fr)
  have "\<not> keep \<longleftrightarrow>
      (\<exists>cond. endCondition (options (effects w eid)) = Some cond \<and> cond delta = JBool True)"
    using Camera_update_effect_go_keep [OF upd nf] nd unfolding k by (simp add: fr)
  then show ?thesis by auto
qed

theorem endCondition_only_true_witness:
  "fst (Camera_update_effect (Fin 1) 0 truthy_condition_world) \<and>
   truthy (JNumber (Fin 1)) \<and> JNumber (Fin 1) \<noteq> JBool True \<and>
   \<not> fst (Camera_update_effect (Fin 1) 0 true_condition_world)"
proof -
  note ev = example_defs truthy_condition_world_def true_condition_world_def
    ShakeEffect_new_def Camera_update_effect_def stamp_started_def
    effect_updates world_ops Let_def jsnum_defs
  have u1: "Effect_update 0 (Fin 1) (stamp_started 0 truthy_condition_world) =
      (None, snd (Effect_update 0 (Fin 1) (stamp_started 0 truthy_condition_world)))"
    by (simp add: ev prod_eq_iff split: prod.splits)
  have c1: "Camera_update_effect (Fin 1) 0 truthy_condition_world =
      (fst (Camera_update_effect (Fin 1) 0 truthy_condition_world),
       snd (Camera_update_effect (Fin 1) 0 truthy_condition_world))"
    by simp
  have b1: "jlt (Fin (clock truthy_condition_world
                        (Suc (clock_reads (stamp_started 0 truthy_condition_world)))
                      - startedTimeStamp (effects (stamp_started 0 truthy_condition_world) 0)))
                (duration (options (effects truthy_condition_world 0)))"
    by (simp add: ev)
  have e1: "endCondition (options (effects truthy_condition_world 0)) =
      Some (\<lambda>_. JNumber (Fin 1))"
    by (simp add: ev)
  have u2: "Effect_update 0 (Fin 1) (stamp_started 0 true_condition_world) =
      (None, snd (Effect_update 0 (Fin 1) (stamp_started 0 true_condition_world)))"
    by (simp add: ev prod_eq_iff split: prod.splits)
  have c2: "Camera_update_effect (Fin 1) 0 true_condition_world =
      (fst (Camera_update_effect (Fin 1) 0 true_condition_world),
       snd (Camera_update_effect (Fin 1) 0 true_condition_world))"
    by simp
  have b2: "jlt (Fin (clock true_condition_world
                        (Suc (clock_reads (stamp_started 0 true_condition_world)))
                      - startedTimeStamp (effects (stamp_started 0 true_condition_world) 0)))
                (duration (options (effects true_condition_world 0)))"
    by (simp add: ev)
  have e2: "endCondition (options (effects true_condition_world 0)) = Some (\<lambda>_. JBool True)"
    by (simp add: ev)
  from endCondition_only_true [OF u1 _ c1 b1] e1 endCondition_only_true [OF u2 _ c2 b2] e2
  show ?thesis by simp
qed

subsection \<open>The duration\<close>

lemma CameraEffect_options_no_duration:
  "no_duration opts \<Longrightarrow> duration (CameraEffect_options opts) = Fin 0"
  by (simp add: no_duration_def CameraEffect_options_def split: option.splits)

lemma alloc_effect_new:
  "effects (snd (alloc_effect v w)) (fst (alloc_effect v w)) = v"
  by (simp add: alloc_effect_def)

lemma not_jge_PInf: "\<not> jge (Fin a) PInf"
  by (simp add: jge_def jle_def)

text \<open>
  C8. An effect of any class built without an options object, or with options that have
  no duration, has \<^verbatim>\<open>options.duration\<close> 0. An effect whose duration is
  \<^verbatim>\<open>Infinity\<close> stays in the collection whenever its \<^verbatim>\<open>update\<close> has not returned
  \<^verbatim>\<open>false\<close> and no end condition has returned \<^verbatim>\<open>true\<close>: the comparison of the elapsed
  time with the duration never removes it.
\<close>

theorem duration_absent_or_unbounded:
  "(no_duration opts \<longrightarrow>
      duration (options (effects (snd (ShakeEffect_new c opts i w))
                                 (fst (ShakeEffect_new c opts i w)))) = Fin 0 \<and>
      duration (options (effects (snd (PanEffect_new c opts loc w))
                                 (fst (PanEffect_new c opts loc w)))) = Fin 0 \<and>
      duration (options (effects (snd (ZoomEffect_new c opts loc ease w))
                                 (fst (ZoomEffect_new c opts loc ease w)))) = Fin 0 \<and>
      duration (options (effects (snd (RotateEffect_new c opts a ease w))
                                 (fst (RotateEffect_new c opts a ease w)))) = Fin 0 \<and>
      duration (options (effects (snd (FadeEffect_new c opts flt col opac ease w))
                                 (fst (FadeEffect_new c opts flt col opac ease w)))) = Fin 0 \<and>
      duration (options (effects (snd (CustomEffect_new c opts cf w))
                                 (fst (CustomEffect_new c opts cf w)))) = Fin 0) \<and>
   (duration (options (effects v eid)) = PInf \<and>
    Effect_update eid delta (stamp_started eid v) = (continueEffect, vu) \<and>
    Camera_update_effect delta eid v = (keep, v') \<and>
    continueEffect \<noteq> Some False \<and>
    (\<forall>cond. endCondition (options (effects v eid)) = Some cond \<longrightarrow> cond delta \<noteq> JBool True)
    \<longrightarrow> keep)"
proof -
  have absent: "duration (options (CameraEffect_new c opts k)) = Fin 0"
    if "no_duration opts" for k
    using that by (simp add: CameraEffect_new_def CameraEffect_options_no_duration)
  have first: "no_duration opts \<longrightarrow>
      duration (options (effects (snd (ShakeEffect_new c opts i w))
                                 (fst (ShakeEffect_new c opts i w)))) = Fin 0 \<and>
      duration (options (effects (snd (PanEffect_new c opts loc w))
                                 (fst (PanEffect_new c opts loc w)))) = Fin 0 \<and>
      duration (options (effects (snd (ZoomEffect_new c opts loc ease w))
                                 (fst (ZoomEffect_new c opts loc ease w)))) = Fin 0 \<and>
      duration (options (effects (snd (RotateEffect_new c opts a ease w))
                                 (fst (RotateEffect_new c opts a ease w)))) = Fin 0 \<and>
      duration (options (effects (snd (FadeEffect_new c opts flt col opac ease w))
                                 (fst (FadeEffect_new c opts flt col opac ease w)))) = Fin 0 \<and>
      duration (options (effects (snd (CustomEffect_new c opts cf w))
                                 (fst (CustomEffect_new c opts cf w)))) = Fin 0"
    by (simp add: ShakeEffect_new_def PanEffect_new_def ZoomEffect_new_def RotateEffect_new_def
        FadeEffect_new_def CustomEffect_new_def Let_def alloc_effect_new absent)
  have second: "keep"
    if inf: "duration (options (effects v eid)) = PInf"
      and upd: "Effect_update eid delta (stamp_started eid v) = (continueEffect, vu)"
      and cb: "Camera_update_effect delta eid v = (keep, v')"
      and nf: "continueEffect \<noteq> Some False"
      and ne: "\<forall>cond. endCondition (options (effects v eid)) = Some cond \<longrightarrow>
                 cond delta \<noteq> JBool True"
  proof -
    note fr = Effect_update_frame [OF upd] stamp_started_frame [of eid v]
      stamp_started_same [of eid v]
    have "fst (Camera_update_effect delta eid v) = keep" using cb by simp
    with Camera_update_effect_go_keep [OF upd nf] ne
    show ?thesis by (simp add: fr inf not_jge_PInf)
  qed
  from first second show ?thesis by blast
qed


theorem duration_absent_or_unbounded_witness:
  "no_duration None \<and>
   no_duration (Some \<lparr> arg_duration = None, arg_endCondition = Some (\<lambda>_. JBool False) \<rparr>) \<and>
   duration (options (effects (snd (ShakeEffect_new 0 None (Fin 5) (empty_world (\<lambda>_. 16) (\<lambda>_. 0))))
                              (fst (ShakeEffect_new 0 None (Fin 5) (empty_world (\<lambda>_. 16) (\<lambda>_. 0))))))
     = Fin 0 \<and>
   duration (options (effects endless_shake_world 0)) = PInf \<and>
   endCondition (options (effects endless_shake_world 0)) = None \<and>
   fst (Effect_update 0 (Fin 1) (stamp_started 0 endless_shake_world)) = None \<and>
   clock endless_shake_world 2 - clock endless_shake_world 0 = 2000000 \<and>
   fst (Camera_update_effect (Fin 1) 0 endless_shake_world)"
proof -
  note ev = example_defs endless_shake_world_def ShakeEffect_new_def stamp_started_def
    effect_updates world_ops Let_def jsnum_defs
  have n: "no_duration None \<and>
      no_duration (Some \<lparr> arg_duration = None, arg_endCondition = Some (\<lambda>_. JBool False) \<rparr>)"
    by (simp add: no_duration_def)
  have d: "duration (options (effects endless_shake_world 0)) = PInf \<and>
      endCondition (options (effects endless_shake_world 0)) = None \<and>
      clock endless_shake_world 2 - clock endless_shake_world 0 = 2000000"
    by (simp add: ev)
  have uf: "fst (Effect_update 0 (Fin 1) (stamp_started 0 endless_shake_world)) = None"
    by (simp add: ev split: prod.splits)
  then have u: "Effect_update 0 (Fin 1) (stamp_started 0 endless_shake_world) =
      (None, snd (Effect_update 0 (Fin 1) (stamp_started 0 endless_shake_world)))"
    by (simp add: prod_eq_iff)
  have c: "Camera_update_effect (Fin 1) 0 endless_shake_world =
      (fst (Camera_update_effect (Fin 1) 0 endless_shake_world),
       snd (Camera_update_effect (Fin 1) 0 endless_shake_world))"
    by simp
  from duration_absent_or_unbounded
         [where opts = None and c = 0 and i = "Fin 5" and w = "empty_world (\<lambda>_. 16) (\<lambda>_. 0)"
            and v = endless_shake_world and eid = 0 and delta = "Fin 1"
            and continueEffect = None
            and vu = "snd (Effect_update 0 (Fin 1) (stamp_started 0 endless_shake_world))"
            and keep = "fst (Camera_update_effect (Fin 1) 0 endless_shake_world)"
            and v' = "snd (Camera_update_effect (Fin 1) 0 endless_shake_world)"]
    n d uf u c
  show ?thesis by simp
qed

subsection \<open>The start time\<close>

lemma Camera_update_effect_started:
  "startedTimeStamp (effects (snd (Camera_update_effect delta eid w)) x) =
     (if x = eid \<and> startedTimeStamp (effects w eid) = 0 then clock w (clock_reads w)
      else startedTimeStamp (effects w x))"
proof -
  obtain r wu where upd: "Effect_update eid delta (stamp_started eid w) = (r, wu)"
    by (cases "Effect_update eid delta (stamp_started eid w)")
  note fr = Effect_update_frame [OF upd] stamp_started_effects [of eid w]
  show ?thesis
  proof (cases "r = Some False")
    case True
    with upd show ?thesis
      by (simp add: Camera_update_effect_stop Effect_onEnd_effects fr)
  next
    case False
    from Camera_update_effect_go_effects [OF upd False] show ?thesis
      by (simp add: fr)
  qed
qed

lemma filter_effects_started:
  "x \<notin> set es \<or> startedTimeStamp (effects w x) \<noteq> 0 \<Longrightarrow>
   startedTimeStamp (effects (snd (filter_effects delta es w)) x) = startedTimeStamp (effects w x)"
proof (induction es arbitrary: w)
  case Nil
  then show ?case by simp
next
  case (Cons e es)
  obtain keep w1 where cb: "Camera_update_effect delta e w = (keep, w1)"
    by (cases "Camera_update_effect delta e w")
  have s1: "startedTimeStamp (effects w1 x) = startedTimeStamp (effects w x)"
    using Camera_update_effect_started [of delta e w x] Cons.prems cb by auto
  have "startedTimeStamp (effects (snd (filter_effects delta es w1)) x) =
      startedTimeStamp (effects w1 x)"
    using Cons.prems by (intro Cons.IH) (auto simp: s1)
  then show ?case by (simp add: cb s1 case_prod_beta)
qed

lemma Camera_update_started:
  "x \<notin> set (camera_effects cam) \<or> startedTimeStamp (effects w x) \<noteq> 0 \<Longrightarrow>
   startedTimeStamp (effects (snd (Camera_update delta cam w)) x) = startedTimeStamp (effects w x)"
  using filter_effects_started [of x "camera_effects cam" w delta]
  by (simp add: Camera_update_def case_prod_beta)

lemma ticks_started:
  "startedTimeStamp (effects w x) \<noteq> 0 \<Longrightarrow>
   startedTimeStamp (effects (snd (ticks deltas cam w)) x) = startedTimeStamp (effects w x)"
proof (induction deltas arbitrary: cam w)
  case Nil
  then show ?case by simp
next
  case (Cons d ds)
  obtain cam1 w1 where t: "Camera_update d cam w = (cam1, w1)"
    by (cases "Camera_update d cam w")
  have s1: "startedTimeStamp (effects w1 x) = startedTimeStamp (effects w x)"
    using Camera_update_started [of x cam w d] Cons.prems t by simp
  with Cons.prems Cons.IH [of w1 cam1] show ?case by (simp add: t)
qed

lemma new_effect_started:
  "startedTimeStamp (effects (snd (alloc_effect (CameraEffect_new c opts k) w))
                             (fst (alloc_effect (CameraEffect_new c opts k) w))) = 0"
  by (simp add: alloc_effect_def CameraEffect_new_def)


text \<open>
  What the camera does keep of the start time. Every constructor leaves
  \<^verbatim>\<open>startedTimeStamp\<close> at 0, and a tick of a camera that does not hold the effect does
  not touch it. When the camera handles an effect whose start time is 0, the start time
  becomes the clock's reading. A start time other than 0 survives any number of ticks.
\<close>

theorem startedTimeStamp_set_once:
  "startedTimeStamp (effects (snd (ShakeEffect_new c opts i w))
                             (fst (ShakeEffect_new c opts i w))) = 0 \<and>
   startedTimeStamp (effects (snd (PanEffect_new c opts loc w))
                             (fst (PanEffect_new c opts loc w))) = 0 \<and>
   startedTimeStamp (effects (snd (ZoomEffect_new c opts loc ease w))
                             (fst (ZoomEffect_new c opts loc ease w))) = 0 \<and>
   startedTimeStamp (effects (snd (RotateEffect_new c opts a ease w))
                             (fst (RotateEffect_new c opts a ease w))) = 0 \<and>
   startedTimeStamp (effects (snd (FadeEffect_new c opts flt col opac ease w))
                             (fst (FadeEffect_new c opts flt col opac ease w))) = 0 \<and>
   startedTimeStamp (effects (snd (CustomEffect_new c opts cf w))
                             (fst (CustomEffect_new c opts cf w))) = 0 \<and>
   (eid \<notin> set (camera_effects cam) \<longrightarrow>
      startedTimeStamp (effects (snd (Camera_update delta cam v)) eid) =
        startedTimeStamp (effects v eid)) \<and>
   (startedTimeStamp (effects v eid) = 0 \<longrightarrow>
      startedTimeStamp (effects (snd (Camera_update_effect delta eid v)) eid) =
        clock v (clock_reads v)) \<and>
   (startedTimeStamp (effects v eid) \<noteq> 0 \<longrightarrow>
      startedTimeStamp (effects (snd (ticks deltas cam v)) eid) =
        startedTimeStamp (effects v eid))"
proof -
  have new: "startedTimeStamp (effects (snd (ShakeEffect_new c opts i w))
                             (fst (ShakeEffect_new c opts i w))) = 0 \<and>
   startedTimeStamp (effects (snd (PanEffect_new c opts loc w))
                             (fst (PanEffect_new c opts loc w))) = 0 \<and>
   startedTimeStamp (effects (snd (ZoomEffect_new c opts loc ease w))
                             (fst (ZoomEffect_new c opts loc ease w))) = 0 \<and>
   startedTimeStamp (effects (snd (RotateEffect_new c opts a ease w))
                             (fst (RotateEffect_new c opts a ease w))) = 0 \<and>
   startedTimeStamp (effects (snd (FadeEffect_new c opts flt col opac ease w))
                             (fst (FadeEffect_new c opts flt col opac ease w))) = 0 \<and>
   startedTimeStamp (effects (snd (CustomEffect_new c opts cf w))
                             (fst (CustomEffect_new c opts cf w))) = 0"
    by (simp add: ShakeEffect_new_def PanEffect_new_def ZoomEffect_new_def RotateEffect_new_def
        FadeEffect_new_def CustomEffect_new_def Let_def new_effect_started)
  have idle: "eid \<notin> set (camera_effects cam) \<longrightarrow>
      startedTimeStamp (effects (snd (Camera_update delta cam v)) eid) =
        startedTimeStamp (effects v eid)"
    by (simp add: Camera_update_started)
  have first: "startedTimeStamp (effects v eid) = 0 \<longrightarrow>
      startedTimeStamp (effects (snd (Camera_update_effect delta eid v)) eid) =
        clock v (clock_reads v)"
    by (simp add: Camera_update_effect_started)
  have later: "startedTimeStamp (effects v eid) \<noteq> 0 \<longrightarrow>
      startedTimeStamp (effects (snd (ticks deltas cam v)) eid) =
        startedTimeStamp (effects v eid)"
    by (simp add: ticks_started)
  from new idle first later show ?thesis by blast
qed

theorem startedTimeStamp_set_once_witness:
  "startedTimeStamp (effects shake_world 0) = 0 \<and>
   (1::nat) \<notin> set (camera_effects \<lparr> camera_effects = [0] \<rparr>) \<and>
   startedTimeStamp (effects (snd (Camera_update (Fin 1) \<lparr> camera_effects = [0] \<rparr> shake_world)) 1)
     = 0 \<and>
   startedTimeStamp (effects (snd (Camera_update_effect (Fin 1) 0 shake_world)) 0) = 16 \<and>
   startedTimeStamp
     (effects (snd (ticks [Fin 1, Fin 1, Fin 1] \<lparr> camera_effects = [0] \<rparr>
                      (snd (Camera_update_effect (Fin 1) 0 shake_world)))) 0) = 16"
proof -
  have s: "startedTimeStamp (effects shake_world 0) = 0 \<and>
      startedTimeStamp (effects shake_world 1) = 0 \<and>
      clock shake_world (clock_reads shake_world) = 16"
    by (simp add: example_defs shake_world_def ShakeEffect_new_def)
  note t = startedTimeStamp_set_once
      [where v = shake_world and eid = 0 and delta = "Fin 1"]
  note t1 = startedTimeStamp_set_once
      [where v = shake_world and eid = 1 and delta = "Fin 1"
         and cam = "\<lparr> camera_effects = [0] \<rparr>"]
  have st: "startedTimeStamp (effects (snd (Camera_update_effect (Fin 1) 0 shake_world)) 0) = 16"
    using t s by simp
  note t2 = startedTimeStamp_set_once
      [where v = "snd (Camera_update_effect (Fin 1) 0 shake_world)" and eid = 0
         and deltas = "[Fin 1, Fin 1, Fin 1]" and cam = "\<lparr> camera_effects = [0] \<rparr>"]
  from s st t1 t2 show ?thesis by simp
qed

text \<open>
  C2. The start time is to be set on the effect's first tick and never to change
  afterwards; the camera's own comment says "If this is the first time that the effect has
  run, set the started time to now". The camera tells a first run by the start time being
  0. When the clock reads 0 at the effect's first tick, as it does under the fake timers
  of the test-suite before time is advanced, the first tick runs the effect and stamps it
  with 0, and the second tick, which is not the effect's first run, stamps it again, with
  16: the start time has changed on a later tick.
\<close>

theorem startedTimeStamp_stamped_again:
  "startedTimeStamp (effects zero_clock_world 0) = 0 \<and>
   Camera_update (Fin 1) \<lparr> camera_effects = [0] \<rparr> zero_clock_world =
     ticks [Fin 1] \<lparr> camera_effects = [0] \<rparr> zero_clock_world \<and>
   fst (ticks [Fin 1] \<lparr> camera_effects = [0] \<rparr> zero_clock_world) = \<lparr> camera_effects = [0] \<rparr> \<and>
   calls (snd (ticks [Fin 1] \<lparr> camera_effects = [0] \<rparr> zero_clock_world)) =
     [UpdateCalled 0 (Fin 1)] \<and>
   clock zero_clock_world 0 = 0 \<and>
   startedTimeStamp (effects (snd (ticks [Fin 1] \<lparr> camera_effects = [0] \<rparr> zero_clock_world)) 0)
     = 0 \<and>
   startedTimeStamp
     (effects (snd (ticks [Fin 1, Fin 1] \<lparr> camera_effects = [0] \<rparr> zero_clock_world)) 0) = 16"
  by (simp add: example_defs zero_clock_world_def tick_eval)

subsection \<open>Shake\<close>

lemma Camera_update_effect_dropped:
  assumes "Camera_update_effect delta eid v = (False, v')"
  shows "\<exists>x. v' = Effect_onEnd_if_present eid x \<and> kind (effects x eid) = kind (effects v eid) \<and>
             container_ref (effects x eid) = container_ref (effects v eid)"
proof -
  obtain r wu where upd: "Effect_update eid delta (stamp_started eid v) = (r, wu)"
    by (cases "Effect_update eid delta (stamp_started eid v)")
  note fr = Effect_update_frame [OF upd] stamp_started_effects [of eid v]
  show ?thesis
  proof (cases "r = Some False")
    case True
    with upd assms have "v' = Effect_onEnd_if_present eid wu"
      by (simp add: Camera_update_effect_stop)
    moreover have "kind (effects wu eid) = kind (effects v eid) \<and>
        container_ref (effects wu eid) = container_ref (effects v eid)"
      by (simp add: fr)
    ultimately show ?thesis by blast
  next
    case False
    with upd assms show ?thesis
      by (auto simp: Camera_update_effect_def world_ops Let_def fr
          split: option.splits if_splits prod.splits)
  qed
qed

lemma ShakeEffect_onEnd_pivot:
  assumes "kind (effects x eid) = Shake f"
  shows "pivot (containers (Effect_onEnd_if_present eid x) (container_ref (effects x eid))) =
           initialPivotVector f \<and>
         calls (Effect_onEnd_if_present eid x) = calls x @ [OnEndCalled eid]"
  using assms
  by (simp add: Effect_onEnd_if_present_def ShakeEffect_onEnd_def world_ops Let_def)

text \<open>
  C7. A shake effect is built on container \<open>c\<close> with any options and any intensity.
  Later, in a world \<open>v\<close> whose containers, random source and clock are arbitrary, the
  camera drops the effect. Then \<^verbatim>\<open>onEnd\<close> is the last call made, and the pivot of \<open>c\<close>
  is the pivot \<open>c\<close> had when the effect was built.
\<close>

theorem ShakeEffect_restores_pivot:
  assumes new: "ShakeEffect_new c opts i w = (eid, w1)"
    and same: "kind (effects v eid) = kind (effects w1 eid)"
    and cont: "container_ref (effects v eid) = c"
    and drop: "Camera_update_effect delta eid v = (False, v')"
  shows "pivot (containers v' c) = pivot (containers w c) \<and> last (calls v') = OnEndCalled eid"
proof -
  from new have k: "kind (effects w1 eid) =
      Shake \<lparr> intensity = i,
              initialPivotVector = \<lparr> vec_x = vec_x (pivot (containers w c)),
                                     vec_y = vec_y (pivot (containers w c)) \<rparr> \<rparr>"
    by (auto simp: ShakeEffect_new_def alloc_effect_def CameraEffect_new_def)
  from Camera_update_effect_dropped [OF drop] obtain x where
    x: "v' = Effect_onEnd_if_present eid x" "kind (effects x eid) = kind (effects v eid)"
       "container_ref (effects x eid) = c"
    using cont by auto
  from ShakeEffect_onEnd_pivot [of x eid] x same k show ?thesis by simp
qed


theorem ShakeEffect_restores_pivot_witness:
  "pivot (containers (snd (ticks [Fin 1, Fin 1] \<lparr> camera_effects = [0] \<rparr> offset_shake_world)) 0)
     = \<lparr> vec_x = Fin (5 / 2), vec_y = Fin (5 / 2) \<rparr> \<and>
   fst (Camera_update_effect (Fin 1) 0
          (snd (ticks [Fin 1, Fin 1] \<lparr> camera_effects = [0] \<rparr> offset_shake_world))) = False \<and>
   pivot (containers
            (snd (Camera_update_effect (Fin 1) 0
                    (snd (ticks [Fin 1, Fin 1] \<lparr> camera_effects = [0] \<rparr> offset_shake_world))))
            0) = \<lparr> vec_x = Fin 7, vec_y = Fin 9 \<rparr>"
proof -
  let ?w = "(empty_world (\<lambda>n. 1000 * real (Suc n)) (\<lambda>_. 1 / 2))
               \<lparr>containers := (\<lambda>_. offset_stage)\<rparr>"
  let ?opts = "Some \<lparr> arg_duration = Some (Fin 5000), arg_endCondition = None \<rparr>"
  let ?v = "snd (ticks [Fin 1, Fin 1] \<lparr> camera_effects = [0] \<rparr> offset_shake_world)"
  note ev = example_defs offset_shake_world_def offset_stage_def tick_eval
  have new: "ShakeEffect_new 0 ?opts (Fin 5) ?w = (0, offset_shake_world)"
    by (simp add: offset_shake_world_def ShakeEffect_new_def alloc_effect_def empty_world_def)
  have same: "kind (effects ?v 0) = kind (effects offset_shake_world 0) \<and>
      container_ref (effects ?v 0) = 0"
    by (simp add: ev)
  have before: "pivot (containers ?v 0) = \<lparr> vec_x = Fin (5 / 2), vec_y = Fin (5 / 2) \<rparr>"
    by (simp add: ev)
  have k: "fst (Camera_update_effect (Fin 1) 0 ?v) = False"
    by (simp add: ev)
  then have drop: "Camera_update_effect (Fin 1) 0 ?v = (False, snd (Camera_update_effect (Fin 1) 0 ?v))"
    by (simp add: prod_eq_iff)
  have p0: "pivot (containers ?w 0) = \<lparr> vec_x = Fin 7, vec_y = Fin 9 \<rparr>"
    by (simp add: empty_world_def offset_stage_def)
  from ShakeEffect_restores_pivot [OF new _ _ drop] same before k p0
  show ?thesis by simp
qed

subsection \<open>Zoom\<close>

lemma within_tol_Fin: "within_tol (Fin a) (Fin t) tol \<longleftrightarrow> \<bar>a - t\<bar> < tol"
  by (auto simp: within_tol_def jgt_def jsub_def)

text \<open>
  C6. A zoom effect is built on container \<open>c\<close> for the levels \<open>z\<close>; later, in any
  world, it is updated. On an axis whose level is greater than the scale \<open>c\<close> had at
  construction, the new scale is that scale plus half of level times eased fraction; on
  the other axes it is that scale minus level times eased fraction, not halved. The update
  returns \<^verbatim>\<open>false\<close> when both axes are then less than 0.01 away from their levels, and
  nothing otherwise.
\<close>

theorem ZoomEffect_update_scale:
  assumes new: "ZoomEffect_new c opts z ez w = (eid, w1)"
    and same: "kind (effects v eid) = kind (effects w1 eid)"
    and cont: "container_ref (effects v eid) = c"
    and upd: "Effect_update eid delta v = (r, v')"
  shows "vec_x (scale (containers v' c)) =
           (if jgt (vec_x z) (vec_x (scale (containers w c)))
            then jadd (vec_x (scale (containers w c)))
                   (jdiv (jmul (vec_x z) (easing_or_default ez (timeDiffPercentage (effects v eid))))
                         (Fin 2))
            else jsub (vec_x (scale (containers w c)))
                   (jmul (vec_x z) (easing_or_default ez (timeDiffPercentage (effects v eid))))) \<and>
         vec_y (scale (containers v' c)) =
           (if jgt (vec_y z) (vec_y (scale (containers w c)))
            then jadd (vec_y (scale (containers w c)))
                   (jdiv (jmul (vec_y z) (easing_or_default ez (timeDiffPercentage (effects v eid))))
                         (Fin 2))
            else jsub (vec_y (scale (containers w c)))
                   (jmul (vec_y z) (easing_or_default ez (timeDiffPercentage (effects v eid))))) \<and>
         r = (if within_tol (vec_x (scale (containers v' c))) (vec_x z) (1 / 100) \<and>
                 within_tol (vec_y (scale (containers v' c))) (vec_y z) (1 / 100)
              then Some False else None)"
proof -
  from new have k: "kind (effects w1 eid) =
      Zoom \<lparr> zoomLevel = z, zoom_easingFn = easing_or_default ez,
             initialZoomLevel = \<lparr> vec_x = vec_x (scale (containers w c)),
                                  vec_y = vec_y (scale (containers w c)) \<rparr>,
             zoom_xIsGreater = jgt (vec_x z) (vec_x (scale (containers w c))),
             zoom_yIsGreater = jgt (vec_y z) (vec_y (scale (containers w c))) \<rparr>"
    by (auto simp: ZoomEffect_new_def alloc_effect_def CameraEffect_new_def Let_def)
  from upd show ?thesis
    by (auto simp: Effect_update_def ZoomEffect_update_def same k cont world_ops Let_def within_tol_def)
qed

theorem ZoomEffect_update_scale_witness:
  "scale (containers (snd (Effect_update 0 (Fin 1)
                            (snd (ticks [Fin 1] \<lparr> camera_effects = [0] \<rparr> zoom_world)))) 0) =
     \<lparr> vec_x = Fin (5 / 4), vec_y = Fin (7 / 8) \<rparr> \<and>
   fst (Effect_update 0 (Fin 1) (snd (ticks [Fin 1] \<lparr> camera_effects = [0] \<rparr> zoom_world))) = None \<and>
   scale (containers (snd (Effect_update 0 (Fin 1) zoom_world_at_end)) 0) =
     \<lparr> vec_x = Fin 2, vec_y = Fin (1 / 2) \<rparr> \<and>
   fst (Effect_update 0 (Fin 1) zoom_world_at_end) = Some False"
proof -
  let ?w = "empty_world (\<lambda>n. 1000 * real (Suc n)) (\<lambda>_. 1 / 2)"
  let ?opts = "Some \<lparr> arg_duration = Some (Fin 4000), arg_endCondition = None \<rparr>"
  let ?v = "snd (ticks [Fin 1] \<lparr> camera_effects = [0] \<rparr> zoom_world)"
  note ev = example_defs zoom_world_def zoom_world_at_end_def ZoomEffect_new_def
    easing_or_default_def linear_ease_def tick_eval
  have new: "ZoomEffect_new 0 ?opts \<lparr> vec_x = Fin 2, vec_y = Fin (1 / 2) \<rparr> None ?w = (0, zoom_world)"
    by (simp add: zoom_world_def ZoomEffect_new_def alloc_effect_def empty_world_def Let_def)
  have same: "kind (effects ?v 0) = kind (effects zoom_world 0) \<and>
      container_ref (effects ?v 0) = 0 \<and>
      kind (effects zoom_world_at_end 0) = kind (effects zoom_world 0) \<and>
      container_ref (effects zoom_world_at_end 0) = 0"
    by (simp add: ev)
  have upd: "Effect_update 0 (Fin 1) x =
      (fst (Effect_update 0 (Fin 1) x), snd (Effect_update 0 (Fin 1) x))" for x
    by simp
  have vals: "easing_or_default None (timeDiffPercentage (effects ?v 0)) = Fin (1 / 4) \<and>
      easing_or_default None (timeDiffPercentage (effects zoom_world_at_end 0)) = Fin 1 \<and>
      scale (containers ?w 0) = \<lparr> vec_x = Fin 1, vec_y = Fin 1 \<rparr>"
    by (simp add: ev)
  from ZoomEffect_update_scale [OF new _ _ upd [of ?v]]
    ZoomEffect_update_scale [OF new _ _ upd [of zoom_world_at_end]] same vals
  show ?thesis by (simp add: jsnum_defs within_tol_Fin Vector2.equality)
qed

subsection \<open>Pan\<close>

text \<open>
  C3. The stage's pivot is (100, 100) when a pan to (150, 150) over 4000 ms is built.
  A quarter of the way through, \<^verbatim>\<open>update\<close> sets the pivot to (12.5, 12.5): the
  distance to the target times the fraction, without the pivot the effect started from.
  The linear interpolation from (100, 100) toward (150, 150) is at 112.5 there. At the
  end of the duration the pivot is (50, 50), not within 5 of the target, and \<^verbatim>\<open>update\<close>
  does not return \<^verbatim>\<open>false\<close>.
\<close>

theorem PanEffect_ignores_initial_pivot:
  "pivot (containers shifted_pan_world 0) = \<lparr> vec_x = Fin 100, vec_y = Fin 100 \<rparr> \<and>
   coordinates (case kind (effects shifted_pan_world 0) of Pan f \<Rightarrow> f) =
     \<lparr> vec_x = Fin 150, vec_y = Fin 150 \<rparr> \<and>
   timeDiffPercentage
     (effects (snd (ticks [Fin 1] \<lparr> camera_effects = [0] \<rparr> shifted_pan_world)) 0) = Fin (1 / 4) \<and>
   pivot (containers
            (snd (Effect_update 0 (Fin 1)
                    (snd (ticks [Fin 1] \<lparr> camera_effects = [0] \<rparr> shifted_pan_world)))) 0) =
     \<lparr> vec_x = Fin (25 / 2), vec_y = Fin (25 / 2) \<rparr> \<and>
   linear_interpolation (Fin 100) (Fin 150) (Fin (1 / 4)) = Fin (225 / 2) \<and>
   timeDiffPercentage (effects shifted_pan_world_at_end 0) = Fin 1 \<and>
   pivot (containers (snd (Effect_update 0 (Fin 1) shifted_pan_world_at_end)) 0) =
     \<lparr> vec_x = Fin 50, vec_y = Fin 50 \<rparr> \<and>
   fst (Effect_update 0 (Fin 1) shifted_pan_world_at_end) = None"
  by (simp add: example_defs shifted_pan_world_def shifted_pan_world_at_end_def shifted_stage_def
      PanEffect_new_def linear_interpolation_def tick_eval)

subsection \<open>Rotate\<close>




subsection \<open>Fade\<close>

lemma jmul_one: "jmul (Fin 1) y = y"
  by (cases y) (simp_all add: signed_inf_def)

lemma jlt_jle: "jlt a b \<Longrightarrow> jle a b"
  by (cases a; cases b) (simp_all add: jle_def)

lemma Effect_update_tint: "tint (sprites (snd (Effect_update eid delta w)) s) = tint (sprites w s)"
  by (simp add: effect_updates world_ops Let_def split: effect_kind.splits prod.splits)

lemma Effect_onEnd_sprites: "sprites (Effect_onEnd_if_present eid w) = sprites w"
  by (simp add: Effect_onEnd_if_present_def ShakeEffect_onEnd_def world_ops Let_def
      split: effect_kind.splits option.splits)

lemma stamp_started_sprites: "sprites (stamp_started eid w) = sprites w"
  by (simp add: stamp_started_def world_ops)

lemma Camera_update_effect_tint:
  "tint (sprites (snd (Camera_update_effect delta eid w)) s) = tint (sprites w s)"
proof -
  obtain r wu where upd: "Effect_update eid delta (stamp_started eid w) = (r, wu)"
    by (cases "Effect_update eid delta (stamp_started eid w)")
  have t: "tint (sprites wu s) = tint (sprites w s)"
    using Effect_update_tint [of eid delta "stamp_started eid w" s] upd
    by (simp add: stamp_started_sprites)
  show ?thesis
    using upd t
    by (simp add: Camera_update_effect_def world_ops Let_def Effect_onEnd_sprites
        split: option.splits)
qed

lemma filter_effects_tint:
  "tint (sprites (snd (filter_effects delta es w)) s) = tint (sprites w s)"
proof (induction es arbitrary: w)
  case Nil
  then show ?case by simp
next
  case (Cons e es)
  show ?case
    using Cons.IH [of "snd (Camera_update_effect delta e w)"]
      Camera_update_effect_tint [of delta e w s]
    by (simp add: case_prod_beta)
qed

lemma ticks_tint: "tint (sprites (snd (ticks deltas cam w)) s) = tint (sprites w s)"
proof (induction deltas arbitrary: cam w)
  case Nil
  then show ?case by simp
next
  case (Cons d ds)
  have "tint (sprites (snd (Camera_update d cam w)) s) = tint (sprites w s)"
    by (simp add: Camera_update_def case_prod_beta filter_effects_tint)
  with Cons.IH [of "fst (Camera_update d cam w)" "snd (Camera_update d cam w)"]
  show ?case by (simp add: case_prod_beta)
qed


text \<open>
  C5, amended. A fade effect is built with the sprite \<open>flt\<close>, a colour and a target
  opacity. The constructor sets the sprite's opacity to 0, which is its initial value,
  and its tint to the colour; no tick of the camera changes that tint, and no update of
  any effect changes any tint. The direction is fixed at construction by comparing the
  target with that initial opacity: an update whose eased fraction \<open>x\<close> is not negative
  sets the opacity to \<open>x\<close> when the target is not below 0 and to \<open>- x\<close> when it is,
  that is on the target's side of the initial value. When the opacity is then less than
  0.01 away from the target, the update returns \<^verbatim>\<open>false\<close>.
\<close>

theorem FadeEffect_update_opacity:
  assumes new: "FadeEffect_new c opts flt col target ez w = (eid, w1)"
    and same: "kind (effects v eid) = kind (effects w1 eid)"
    and upd: "Effect_update eid delta v = (r, v')"
  shows "alpha (sprites w1 flt) = Fin 0 \<and>
         tint (sprites w1 flt) = col \<and>
         tint (sprites (snd (ticks deltas cam w1)) flt) = col \<and>
         (\<forall>s. tint (sprites v' s) = tint (sprites v s)) \<and>
         (\<forall>x t. easing_or_default ez (timeDiffPercentage (effects v eid)) = Fin x \<and> 0 \<le> x \<and>
                 target = Fin t \<longrightarrow>
                 alpha (sprites v' flt) = Fin (if 0 \<le> t then x else - x)) \<and>
         (within_tol (alpha (sprites v' flt)) target (1 / 100) \<longrightarrow> r = Some False)"
proof -
  from new have k: "kind (effects w1 eid) =
      Fade \<lparr> fade_filter = flt, color = col, opacity = target,
             fade_easingFn = easing_or_default ez,
             isFadeOut = (\<not> jgt (Fin 0) target), initialOpacity = Fin 0 \<rparr>"
    and a0: "alpha (sprites w1 flt) = Fin 0" and t0: "tint (sprites w1 flt) = col"
    by (auto simp: FadeEffect_new_def alloc_effect_def CameraEffect_new_def Let_def world_ops)
  have life: "tint (sprites (snd (ticks deltas cam w1)) flt) = col"
    by (simp add: ticks_tint t0)
  have frame: "\<forall>s. tint (sprites v' s) = tint (sprites v s)"
    using Effect_update_tint [of eid delta v] upd by simp
  from upd have res: "alpha (sprites v' flt) =
      (if \<not> jgt (Fin 0) target then easing_or_default ez (timeDiffPercentage (effects v eid))
       else jsub (Fin 0) (easing_or_default ez (timeDiffPercentage (effects v eid))))"
    and r: "r = (if (\<not> jgt (Fin 0) target \<and>
                     jge (alpha (sprites v' flt)) (jsub target (Fin (1 / 100)))) \<or>
                    (jgt (Fin 0) target \<and>
                     jle (alpha (sprites v' flt)) (jadd target (Fin (1 / 100))))
                 then Some False else None)"
    by (auto simp: Effect_update_def FadeEffect_update_def same k world_ops Let_def jmul_one)
  have toward: "\<forall>x t. easing_or_default ez (timeDiffPercentage (effects v eid)) = Fin x \<and>
      0 \<le> x \<and> target = Fin t \<longrightarrow> alpha (sprites v' flt) = Fin (if 0 \<le> t then x else - x)"
    by (auto simp: res jgt_def jsub_def)
  have stop: "within_tol (alpha (sprites v' flt)) target (1 / 100) \<longrightarrow> r = Some False"
  proof
    assume wt: "within_tol (alpha (sprites v' flt)) target (1 / 100)"
    then have "jge (alpha (sprites v' flt)) (jsub target (Fin (1 / 100)))"
      and "jle (alpha (sprites v' flt)) (jadd target (Fin (1 / 100)))"
      by (simp_all add: within_tol_def jgt_def jge_def jlt_jle)
    then show "r = Some False" by (simp add: r)
  qed
  from a0 t0 life frame toward stop show ?thesis by blast
qed

theorem FadeEffect_update_opacity_witness:
  "alpha (sprites fade_world 0) = Fin 0 \<and> tint (sprites fade_world 0) = Fin 0 \<and>
   tint (sprites (snd (ticks [Fin 1, Fin 1] \<lparr> camera_effects = [0] \<rparr> fade_world)) 0) = Fin 0 \<and>
   alpha (sprites (snd (Effect_update 0 (Fin 1)
                          (snd (ticks [Fin 1] \<lparr> camera_effects = [0] \<rparr> fade_world)))) 0) =
     Fin (1 / 4) \<and>
   alpha (sprites (snd (Effect_update 0 (Fin 1) fade_world_at_end)) 0) = Fin 1 \<and>
   fst (Effect_update 0 (Fin 1) fade_world_at_end) = Some False"
proof -
  let ?w = "empty_world (\<lambda>n. 1000 * real (Suc n)) (\<lambda>_. 1 / 2)"
  let ?v = "snd (ticks [Fin 1] \<lparr> camera_effects = [0] \<rparr> fade_world)"
  note ev = example_defs four_seconds_def fade_world_def fade_world_at_end_def
    FadeEffect_new_def easing_or_default_def linear_ease_def tick_eval
  have new: "FadeEffect_new 0 four_seconds 0 (Fin 0) (Fin 1) None ?w = (0, fade_world)"
    by (simp add: fade_world_def FadeEffect_new_def alloc_effect_def empty_world_def Let_def
        world_ops)
  have same: "kind (effects ?v 0) = kind (effects fade_world 0) \<and>
      kind (effects fade_world_at_end 0) = kind (effects fade_world 0)"
    by (simp add: ev)
  have upd: "Effect_update 0 (Fin 1) x =
      (fst (Effect_update 0 (Fin 1) x), snd (Effect_update 0 (Fin 1) x))" for x
    by simp
  have vals: "easing_or_default None (timeDiffPercentage (effects ?v 0)) = Fin (1 / 4) \<and>
      easing_or_default None (timeDiffPercentage (effects fade_world_at_end 0)) = Fin 1"
    by (simp add: ev)
  from FadeEffect_update_opacity [OF new _ upd [of ?v],
         where deltas = "[Fin 1, Fin 1]" and cam = "\<lparr> camera_effects = [0] \<rparr>"]
    FadeEffect_update_opacity [OF new _ upd [of fade_world_at_end]] same vals
  show ?thesis by (simp add: within_tol_Fin)
qed

text \<open>
  C5 as stated fails for updates whose eased fraction is negative. On the first tick of
  every effect \<^verbatim>\<open>lastRanTimeStamp\<close> is still 0 while \<^verbatim>\<open>startedTimeStamp\<close> is the clock's
  reading, here 16 of 2000 ms: a fade from 0 to 1 gets the opacity -0.008. And with an
  easing that dips below zero, a quarter of the way through the same fade the opacity is
  -5/64. Both are further from the target 1 than the initial 0.
\<close>

theorem FadeEffect_update_moves_away:
  "alpha (sprites first_frame_fade_world 0) = Fin 0 \<and>
   opacity (case kind (effects first_frame_fade_world 0) of Fade f \<Rightarrow> f) = Fin 1 \<and>
   calls (snd (Camera_update (Fin 1) \<lparr> camera_effects = [0] \<rparr> first_frame_fade_world)) =
     [UpdateCalled 0 (Fin 1)] \<and>
   alpha (sprites (snd (Camera_update (Fin 1) \<lparr> camera_effects = [0] \<rparr> first_frame_fade_world))
            0) = Fin (- 1 / 125) \<and>
   alpha (sprites eased_fade_world 0) = Fin 0 \<and>
   opacity (case kind (effects eased_fade_world 0) of Fade f \<Rightarrow> f) = Fin 1 \<and>
   timeDiffPercentage
     (effects (snd (ticks [Fin 1] \<lparr> camera_effects = [0] \<rparr> eased_fade_world)) 0) = Fin (1 / 4) \<and>
   alpha (sprites (snd (Effect_update 0 (Fin 1)
                          (snd (ticks [Fin 1] \<lparr> camera_effects = [0] \<rparr> eased_fade_world)))) 0) =
     Fin (- 5 / 64)"
  by (simp add: example_defs four_seconds_def first_frame_fade_world_def eased_fade_world_def
      back_in_def FadeEffect_new_def easing_or_default_def linear_ease_def tick_eval)

end
